theory Spec2Isabelle
  imports Complex_Main
begin

section \<open>Utilities of \<open>mailboxRouter.js\<close>\<close>

subsection \<open>JavaScript string primitives used by the source\<close>

text \<open>
  Strings are lists of characters, one \<open>char\<close> per UTF-16 code unit of the JavaScript
  string (the addresses the schema accepts are ASCII).

  \<open>s.split(c)\<close> for a one-character separator: every occurrence of \<open>c\<close> ends a piece, and
  the result always has at least one piece (\<open>"".split("@")\<close> is \<open>[""]\<close>).
\<close>

fun js_split :: "char \<Rightarrow> string \<Rightarrow> string list" where
  "js_split c [] = [[]]"
| "js_split c (x # xs) =
     (if x = c then [] # js_split c xs
      else (case js_split c xs of
              [] \<Rightarrow> [[x]]
            | p # ps \<Rightarrow> (x # p) # ps))"

text \<open>
  \<open>s[i] + t\<close>: indexing a string out of range yields \<open>undefined\<close>, which the string
  concatenation renders as the text \<open>undefined\<close>.
\<close>

definition js_char_at :: "string \<Rightarrow> int \<Rightarrow> string" where
  "js_char_at s i = (if 0 \<le> i \<and> i < int (length s) then [s ! nat i] else ''undefined'')"

text \<open>\<open>"*".repeat(k)\<close> for a non-negative integer \<open>k\<close>.\<close>

definition js_repeat_star :: "int \<Rightarrow> string" where
  "js_repeat_star k = replicate (nat k) (CHR ''*'')"

subsection \<open>\<open>maskEmail\<close>\<close>

text \<open>
  \<^verbatim>\<open>const [name, domain] = String(email).split("@");\<close> binds the first two pieces;
  \<open>domain\<close> is \<open>undefined\<close> when there is no second piece, and \<open>!domain\<close> also holds for
  the empty string.
\<close>

definition maskEmail :: "string \<Rightarrow> string" where
  "maskEmail email =
     (let parts = js_split (CHR ''@'') email;
          name = (case parts of [] \<Rightarrow> [] | p # _ \<Rightarrow> p);
          domain = (case parts of _ # d # _ \<Rightarrow> Some d | _ \<Rightarrow> None)
      in case domain of
           None \<Rightarrow> ''***''
         | Some d \<Rightarrow>
             if d = [] then ''***''
             else
               let n = int (length name);
                   masked =
                     (if n \<le> 2 then js_char_at name 0 @ ''*''
                      else js_char_at name 0 @ js_repeat_star (max 1 (n - 2)) @ js_char_at name (n - 1))
               in masked @ ''@'' @ d)"

section \<open>The credential envelope\<close>

subsection \<open>Errors\<close>

text \<open>
  Every \<^verbatim>\<open>throw new Error(...)\<close> of the source, and every exception of a library call the
  handlers catch, is a value of \<open>error\<close>. A handler answers status 400 with the message of
  whatever it caught, so a handler's result is \<open>Inl e\<close> (status 400) or \<open>Inr payload\<close>
  (status 200).
\<close>

datatype error =
    MasterKeyRequired       \<comment> \<open>"CONFIG_MASTER_KEY_BASE64 is required"\<close>
  | MasterKeyNot32Bytes     \<comment> \<open>"CONFIG_MASTER_KEY_BASE64 must be 32 bytes (base64 of 32 bytes)"\<close>
  | UnsupportedEnvelope     \<comment> \<open>"Unsupported envelope"\<close>
  | AuthenticationFailed    \<comment> \<open>thrown by \<open>decipher.final()\<close> (or while the decipher is set up)\<close>
  | JsonSyntaxError         \<comment> \<open>thrown by \<open>JSON.parse\<close>\<close>
  | AccountNotFound         \<comment> \<open>"Account not found"\<close>
  | IntegrationIdRequired   \<comment> \<open>"integrationId is required"\<close>
  | ZodError                \<comment> \<open>thrown by a schema's \<open>parse\<close>\<close>
  | RedisWrongType          \<comment> \<open>the store's reply to a command on a key of the other kind\<close>
  | Upstream string         \<comment> \<open>an SMTP or IMAP failure, with its message\<close>

subsection \<open>Data\<close>

text \<open>A \<open>Buffer\<close>: one \<open>char\<close> (an 8-bit value) per byte.\<close>

type_synonym bytes = "char list"

record server_settings =
  server :: string
  port :: int
  username :: string
  password :: string
  connection :: string

record secret =
  label :: "string option"
  primaryEmail :: string
  imap :: server_settings
  smtp :: server_settings

text \<open>The object \<open>encryptJSON\<close> returns; the four buffers are held as base64 text.\<close>

record envelope =
  env_v :: int
  env_alg :: string
  env_salt :: string
  env_iv :: string
  env_tag :: string
  env_ct :: string

text \<open>The environment variables the module reads.\<close>

record process_env =
  CONFIG_MASTER_KEY_BASE64 :: "string option"

subsection \<open>Library primitives\<close>

text \<open>
  The primitives of Node's \<open>crypto\<close>, \<open>Buffer\<close> and \<open>JSON\<close> and of zod that the source
  calls are not code of the repository. They are parameters of the model:
  \<^item> \<open>to_base64 b\<close> is \<open>b.toString("base64")\<close>, \<open>from_base64 s\<close> is \<open>Buffer.from(s, "base64")\<close>;
  \<^item> \<open>hkdfSync master salt info\<close> is \<open>crypto.hkdfSync("sha256", master, salt, info, 32)\<close>;
  \<^item> \<open>gcm_encrypt key iv aad pt\<close> is the ciphertext and the 16-byte tag of an
    \<open>aes-256-gcm\<close> cipher with that associated data;
  \<^item> \<open>gcm_decrypt key iv aad tag ct\<close> is the plaintext of the matching decipher, or \<open>None\<close>
    when the decipher throws;
  \<^item> \<open>json_stringify\<close> and \<open>json_parse\<close> are \<open>JSON.stringify\<close> and \<open>JSON.parse\<close> on secrets
    (\<open>None\<close> when \<open>JSON.parse\<close> throws);
  \<^item> \<open>is_email\<close> is the test behind \<open>z.string().email()\<close>.
\<close>

record node_lib =
  to_base64 :: "bytes \<Rightarrow> string"
  from_base64 :: "string \<Rightarrow> bytes"
  hkdfSync :: "bytes \<Rightarrow> bytes \<Rightarrow> string \<Rightarrow> bytes"
  gcm_encrypt :: "bytes \<Rightarrow> bytes \<Rightarrow> string \<Rightarrow> string \<Rightarrow> bytes \<times> bytes"
  gcm_decrypt :: "bytes \<Rightarrow> bytes \<Rightarrow> string \<Rightarrow> bytes \<Rightarrow> bytes \<Rightarrow> string option"
  json_stringify :: "secret \<Rightarrow> string"
  json_parse :: "string \<Rightarrow> secret option"
  is_email :: "string \<Rightarrow> bool"

subsection \<open>\<open>getMasterKey\<close>, \<open>hkdfSubkey\<close>, \<open>encryptJSON\<close>, \<open>decryptJSON\<close>\<close>

text \<open>\<open>!b64\<close> holds when the variable is unset and when it is the empty string.\<close>

definition getMasterKey :: "node_lib \<Rightarrow> process_env \<Rightarrow> error + bytes" where
  "getMasterKey L penv =
     (case CONFIG_MASTER_KEY_BASE64 penv of
        None \<Rightarrow> Inl MasterKeyRequired
      | Some b64 \<Rightarrow>
          if b64 = [] then Inl MasterKeyRequired
          else
            let key = from_base64 L b64
            in if length key \<noteq> 32 then Inl MasterKeyNot32Bytes else Inr key)"

definition hkdfSubkey :: "node_lib \<Rightarrow> process_env \<Rightarrow> bytes \<Rightarrow> string \<Rightarrow> error + bytes" where
  "hkdfSubkey L penv salt info =
     (case getMasterKey L penv of
        Inl e \<Rightarrow> Inl e
      | Inr master \<Rightarrow> Inr (hkdfSync L master salt info))"

text \<open>
  \<open>salt\<close> and \<open>iv\<close> are the results of \<open>crypto.randomBytes(16)\<close> and
  \<open>crypto.randomBytes(12)\<close>: inputs of the model.
\<close>

definition encryptJSON ::
  "node_lib \<Rightarrow> process_env \<Rightarrow> bytes \<Rightarrow> bytes \<Rightarrow> secret \<Rightarrow> string \<Rightarrow> error + envelope" where
  "encryptJSON L penv salt iv payload aad =
     (case hkdfSubkey L penv salt ''mailbox:v1'' of
        Inl e \<Rightarrow> Inl e
      | Inr key \<Rightarrow>
          (case gcm_encrypt L key iv aad (json_stringify L payload) of
             (ct, tag) \<Rightarrow>
               Inr \<lparr> env_v = 1, env_alg = ''AES-256-GCM'',
                     env_salt = to_base64 L salt, env_iv = to_base64 L iv,
                     env_tag = to_base64 L tag, env_ct = to_base64 L ct \<rparr>))"

text \<open>The envelope argument is \<open>None\<close> where the source would pass \<open>undefined\<close> or \<open>null\<close>.\<close>

definition decryptJSON ::
  "node_lib \<Rightarrow> process_env \<Rightarrow> envelope option \<Rightarrow> string \<Rightarrow> error + secret" where
  "decryptJSON L penv env aad =
     (case env of
        None \<Rightarrow> Inl UnsupportedEnvelope
      | Some e \<Rightarrow>
          if env_v e \<noteq> 1 \<or> env_alg e \<noteq> ''AES-256-GCM'' then Inl UnsupportedEnvelope
          else
            let salt = from_base64 L (env_salt e);
                iv = from_base64 L (env_iv e);
                tag = from_base64 L (env_tag e);
                ct = from_base64 L (env_ct e)
            in case hkdfSubkey L penv salt ''mailbox:v1'' of
                 Inl err \<Rightarrow> Inl err
               | Inr key \<Rightarrow>
                   (case gcm_decrypt L key iv aad tag ct of
                      None \<Rightarrow> Inl AuthenticationFailed
                    | Some pt \<Rightarrow>
                        (case json_parse L pt of
                           None \<Rightarrow> Inl JsonSyntaxError
                         | Some s \<Rightarrow> Inr s)))"

text \<open>The associated data of a record: the template \<^verbatim>\<open>`${acc.id}:${acc.integrationId}`\<close>.\<close>

definition aad_of :: "string \<Rightarrow> string \<Rightarrow> string" where
  "aad_of accountId integrationId = accountId @ '':'' @ integrationId"

section \<open>Schemas\<close>

text \<open>A request body as \<open>express.json()\<close> hands it over.\<close>

datatype json =
    JNull
  | JBool bool
  | JNum rat
  | JStr string
  | JArr "json list"
  | JObj "(string \<times> json) list"

text \<open>
  Each schema is a function to \<open>option\<close>: \<open>None\<close> is a validation issue, and the
  top-level \<open>parse\<close> throws a \<open>ZodError\<close> when there is one.
\<close>

definition z_string :: "json option \<Rightarrow> string option" where
  "z_string j = (case j of Some (JStr s) \<Rightarrow> Some s | _ \<Rightarrow> None)"

definition z_string_min1 :: "json option \<Rightarrow> string option" where
  "z_string_min1 j = (case j of Some (JStr s) \<Rightarrow> if 1 \<le> length s then Some s else None | _ \<Rightarrow> None)"

definition z_string_optional :: "json option \<Rightarrow> string option option" where
  "z_string_optional j =
     (case j of None \<Rightarrow> Some None | Some (JStr s) \<Rightarrow> Some (Some s) | _ \<Rightarrow> None)"

definition z_email :: "node_lib \<Rightarrow> json option \<Rightarrow> string option" where
  "z_email L j = (case j of Some (JStr s) \<Rightarrow> if is_email L s then Some s else None | _ \<Rightarrow> None)"

definition z_int_positive :: "json option \<Rightarrow> int option" where
  "z_int_positive j =
     (case j of
        Some (JNum q) \<Rightarrow> if q = of_int \<lfloor>q\<rfloor> \<and> 0 < q then Some \<lfloor>q\<rfloor> else None
      | _ \<Rightarrow> None)"

text \<open>\<^verbatim>\<open>const ConnType = z.enum(["SSL/TLS", "STARTTLS"]);\<close>\<close>

definition ConnType :: "json option \<Rightarrow> string option" where
  "ConnType j =
     (case j of
        Some (JStr s) \<Rightarrow> if s = ''SSL/TLS'' \<or> s = ''STARTTLS'' then Some s else None
      | _ \<Rightarrow> None)"

definition ServerSettings :: "json option \<Rightarrow> server_settings option" where
  "ServerSettings j =
     (case j of
        Some (JObj fs) \<Rightarrow>
          (case (z_string_min1 (map_of fs ''server''), z_int_positive (map_of fs ''port''),
                 z_string_min1 (map_of fs ''username''), z_string_min1 (map_of fs ''password''),
                 ConnType (map_of fs ''connection'')) of
             (Some sv, Some p, Some u, Some pw, Some c) \<Rightarrow>
               Some \<lparr> server = sv, port = p, username = u, password = pw, connection = c \<rparr>
           | _ \<Rightarrow> None)
      | _ \<Rightarrow> None)"

definition SecretPayload :: "node_lib \<Rightarrow> json option \<Rightarrow> secret option" where
  "SecretPayload L j =
     (case j of
        Some (JObj fs) \<Rightarrow>
          (case (z_string_optional (map_of fs ''label''), z_email L (map_of fs ''primaryEmail''),
                 ServerSettings (map_of fs ''imap''), ServerSettings (map_of fs ''smtp'')) of
             (Some l, Some e, Some i, Some s) \<Rightarrow>
               Some \<lparr> label = l, primaryEmail = e, imap = i, smtp = s \<rparr>
           | _ \<Rightarrow> None)
      | _ \<Rightarrow> None)"

definition SecretPayload_parse :: "node_lib \<Rightarrow> json \<Rightarrow> error + secret" where
  "SecretPayload_parse L body =
     (case SecretPayload L (Some body) of None \<Rightarrow> Inl ZodError | Some s \<Rightarrow> Inr s)"

definition ServerSettings_parse :: "json \<Rightarrow> error + server_settings" where
  "ServerSettings_parse body =
     (case ServerSettings (Some body) of None \<Rightarrow> Inl ZodError | Some s \<Rightarrow> Inr s)"

section \<open>The account store\<close>

subsection \<open>Records and keys\<close>

record account_record =
  acc_id :: string
  integrationId :: string
  createdAt :: string
  updatedAt :: string
  enc :: envelope

definition kUserIndex :: "string \<Rightarrow> string" where
  "kUserIndex i = ''mail:user:'' @ i @ '':accounts''"

definition kAccount :: "string \<Rightarrow> string" where
  "kAccount accountId = ''mail:acc:'' @ accountId"

subsection \<open>The remote key-value store\<close>

text \<open>
  One key space; a key holds an object (written by \<open>set\<close>) or a set of strings (written
  by \<open>sadd\<close>). The members of a set are kept in the order \<open>smembers\<close> returns them. A
  command on a key of the other kind is refused by the store. Transport failures of
  the store are not modelled: every command completes.
\<close>

datatype redis_value = RObject account_record | RSet "string list"

type_synonym redis = "string \<rightharpoonup> redis_value"

definition redis_get :: "redis \<Rightarrow> string \<Rightarrow> error + account_record option" where
  "redis_get r k =
     (case r k of
        None \<Rightarrow> Inr None
      | Some (RObject v) \<Rightarrow> Inr (Some v)
      | Some (RSet _) \<Rightarrow> Inl RedisWrongType)"

definition redis_set :: "redis \<Rightarrow> string \<Rightarrow> account_record \<Rightarrow> redis" where
  "redis_set r k v = r(k \<mapsto> RObject v)"

definition redis_del :: "redis \<Rightarrow> string \<Rightarrow> redis" where
  "redis_del r k = r(k := None)"

definition redis_sadd :: "redis \<Rightarrow> string \<Rightarrow> string \<Rightarrow> error + redis" where
  "redis_sadd r k m =
     (case r k of
        None \<Rightarrow> Inr (r(k \<mapsto> RSet [m]))
      | Some (RSet ms) \<Rightarrow> Inr (r(k \<mapsto> RSet (if m \<in> set ms then ms else ms @ [m])))
      | Some (RObject _) \<Rightarrow> Inl RedisWrongType)"

text \<open>A set that loses its last member no longer exists as a key.\<close>

definition redis_srem :: "redis \<Rightarrow> string \<Rightarrow> string \<Rightarrow> error + redis" where
  "redis_srem r k m =
     (case r k of
        None \<Rightarrow> Inr r
      | Some (RSet ms) \<Rightarrow>
          Inr (if removeAll m ms = [] then r(k := None) else r(k \<mapsto> RSet (removeAll m ms)))
      | Some (RObject _) \<Rightarrow> Inl RedisWrongType)"

definition redis_smembers :: "redis \<Rightarrow> string \<Rightarrow> error + string list" where
  "redis_smembers r k =
     (case r k of
        None \<Rightarrow> Inr []
      | Some (RSet ms) \<Rightarrow> Inr ms
      | Some (RObject _) \<Rightarrow> Inl RedisWrongType)"

definition loadAccount :: "redis \<Rightarrow> string \<Rightarrow> bool \<Rightarrow> error + account_record option" where
  "loadAccount r accountId mustExist =
     (case redis_get r (kAccount accountId) of
        Inl e \<Rightarrow> Inl e
      | Inr None \<Rightarrow> if mustExist then Inl AccountNotFound else Inr None
      | Inr (Some v) \<Rightarrow> Inr (Some v))"

subsection \<open>Mail clients assembled from a secret\<close>

text \<open>The options object handed to \<open>nodemailer.createTransport\<close>.\<close>

record smtp_transport =
  smtp_host :: string
  smtp_port :: int
  smtp_secure :: bool
  smtp_auth_user :: string
  smtp_auth_pass :: string
  smtp_requireTLS :: bool

definition smtpTransportFromSecret :: "secret \<Rightarrow> smtp_transport" where
  "smtpTransportFromSecret s =
     \<lparr> smtp_host = server (smtp s),
       smtp_port = port (smtp s),
       smtp_secure = (connection (smtp s) = ''SSL/TLS''),
       smtp_auth_user = username (smtp s),
       smtp_auth_pass = password (smtp s),
       smtp_requireTLS = (connection (smtp s) = ''STARTTLS'') \<rparr>"

record imap_config =
  imap_host :: string
  imap_port :: int
  imap_secure :: bool
  imap_auth_user :: string
  imap_auth_pass :: string
  connectionTimeout :: nat
  greetingTimeout :: nat
  socketTimeout :: nat

definition imapConfigFromSecret :: "secret \<Rightarrow> imap_config" where
  "imapConfigFromSecret s =
     \<lparr> imap_host = server (imap s),
       imap_port = port (imap s),
       imap_secure = (connection (imap s) = ''SSL/TLS''),
       imap_auth_user = username (imap s),
       imap_auth_pass = password (imap s),
       connectionTimeout = 30000,
       greetingTimeout = 15000,
       socketTimeout = 60000 \<rparr>"

text \<open>The message object handed to \<open>transporter.sendMail\<close>, and what it resolves to.\<close>

record attachment =
  att_filename :: string
  att_content :: bytes
  att_contentType :: "string option"

record mail =
  mail_from :: string
  mail_to :: "string list"
  mail_cc :: "string list option"
  mail_bcc :: "string list option"
  mail_subject :: string
  mail_text :: "string option"
  mail_html :: "string option"
  mail_attachments :: "attachment list"

record send_info =
  messageId :: string
  accepted :: "string list"
  rejected :: "string list"

text \<open>
  The mail servers are outside the program: what \<open>verify\<close>, \<open>sendMail\<close> and an IMAP
  \<open>connect\<close>/\<open>logout\<close> answer is a parameter.
\<close>

record network =
  smtp_verify :: "smtp_transport \<Rightarrow> error option"
  smtp_sendMail :: "smtp_transport \<Rightarrow> mail \<Rightarrow> error + send_info"
  imap_login :: "imap_config \<Rightarrow> error option"

section \<open>Live watchers\<close>

subsection \<open>State of the process\<close>

text \<open>
  The events written to a push stream. Of an \<open>EmailReceived\<close> event the model keeps the
  account and the UID (subject, addresses, date and flags are copied from the fetched
  message and play no part below).
\<close>

datatype event =
    SSEReady string
  | WatcherReady string
  | EmailReceived string int
  | ErrorEvent error
  | WatcherUnavailable

text \<open>
  A watcher object. \<open>client\<close> is the IMAP client (identified with the configuration it
  was built from) or \<open>None\<close> for \<open>null\<close>; \<open>sseClients\<close> is a reference to a \<open>Set\<close> object,
  which a re-created watcher shares with its predecessor; \<open>idleTimer\<close> is a timeout
  handle or \<open>None\<close> for \<open>undefined\<close>. The \<open>emitter\<close> field is never read and is left out.
\<close>

record watcher =
  accountId :: string
  lastUid :: int
  client :: "imap_config option"
  sseClients :: nat
  stopping :: bool
  idleTimer :: "nat option"

text \<open>The two callbacks the source passes to \<open>setTimeout\<close>.\<close>

datatype callback =
    StopWatcherCb string    \<comment> \<open>\<^verbatim>\<open>() => stopWatcher(w.accountId)\<close>\<close>
  | KeepAliveCb nat         \<comment> \<open>\<^verbatim>\<open>() => keepAliveWatcher(w)\<close>, with the watcher object it closes over\<close>

text \<open>
  The store, the module-level \<open>watchers\<close> map (account id to watcher object), the heap
  of watcher objects and of \<open>Set\<close> objects (response handles in insertion order), the
  pending timeouts with their due time in milliseconds, the \<open>stopWatcher\<close> calls
  suspended at their \<open>await\<close>, the allocation counter, the clock, and everything written
  to response streams so far.
\<close>

record state =
  store :: redis
  watchers :: "string \<rightharpoonup> nat"
  watcher_objs :: "nat \<rightharpoonup> watcher"
  set_objs :: "nat \<rightharpoonup> nat list"
  timeouts :: "nat \<rightharpoonup> nat \<times> callback"
  awaiting_logout :: "(nat \<times> string) list"
  next_ref :: nat
  now_ms :: nat
  written :: "(nat \<times> event) list"

text \<open>What the module's top level leaves behind once it is loaded, over a given store.\<close>

definition initial_state :: "redis \<Rightarrow> state" where
  "initial_state r =
     \<lparr> store = r, watchers = Map.empty, watcher_objs = Map.empty, set_objs = Map.empty,
       timeouts = Map.empty, awaiting_logout = [], next_ref = 0, now_ms = 0, written = [] \<rparr>"

text \<open>
  Loading the module: it builds the store client, the schemas, the empty \<open>watchers\<close> map
  and the router, and registers the routes. No statement of the top level reads the
  master key, so loading cannot fail on it.
\<close>

definition load_module :: "process_env \<Rightarrow> redis \<Rightarrow> error + state" where
  "load_module penv r = Inr (initial_state r)"

subsection \<open>Timers\<close>

definition clearTimeout :: "state \<Rightarrow> nat option \<Rightarrow> state" where
  "clearTimeout s t =
     (case t of None \<Rightarrow> s | Some i \<Rightarrow> s\<lparr> timeouts := (timeouts s)(i := None) \<rparr>)"

definition setTimeout :: "state \<Rightarrow> callback \<Rightarrow> nat \<Rightarrow> state \<times> nat" where
  "setTimeout s cb delay =
     (s\<lparr> timeouts := (timeouts s)(next_ref s \<mapsto> (now_ms s + delay, cb)),
         next_ref := next_ref s + 1 \<rparr>,
      next_ref s)"

subsection \<open>\<open>broadcast\<close>, \<open>stopWatcher\<close>, \<open>keepAliveWatcher\<close>\<close>

definition subscribers :: "state \<Rightarrow> watcher \<Rightarrow> nat list" where
  "subscribers s w = (case set_objs s (sseClients w) of None \<Rightarrow> [] | Some rs \<Rightarrow> rs)"

definition broadcast :: "state \<Rightarrow> string \<Rightarrow> event \<Rightarrow> state" where
  "broadcast s a data =
     (case watchers s a of
        None \<Rightarrow> s
      | Some r \<Rightarrow>
          (case watcher_objs s r of
             None \<Rightarrow> s
           | Some w \<Rightarrow> s\<lparr> written := written s @ map (\<lambda>res. (res, data)) (subscribers s w) \<rparr>))"

text \<open>The \<open>finally\<close> block of \<open>stopWatcher\<close>, for the watcher object \<open>r\<close> it had looked up.\<close>

definition stopWatcher_finally :: "state \<Rightarrow> nat \<Rightarrow> string \<Rightarrow> state" where
  "stopWatcher_finally s r a =
     (case watcher_objs s r of
        None \<Rightarrow> s
      | Some w \<Rightarrow>
          let s1 = clearTimeout s (idleTimer w)
          in s1\<lparr> watcher_objs := (watcher_objs s1)(r \<mapsto> w\<lparr> client := None \<rparr>),
                 watchers := (watchers s1)(a := None) \<rparr>)"

text \<open>
  \<open>stopWatcher\<close> up to its first \<open>await\<close>. Without a client nothing is awaited and the
  \<open>finally\<close> block runs at once; with a client the call is suspended on
  \<open>mailboxClose\<close>/\<open>logout\<close> and its \<open>finally\<close> block runs when these settle
  (\<open>logout_settled\<close>).
\<close>

definition stopWatcher :: "state \<Rightarrow> string \<Rightarrow> state" where
  "stopWatcher s a =
     (case watchers s a of
        None \<Rightarrow> s
      | Some r \<Rightarrow>
          (case watcher_objs s r of
             None \<Rightarrow> s
           | Some w \<Rightarrow>
               if stopping w then s
               else
                 let s1 = s\<lparr> watcher_objs := (watcher_objs s)(r \<mapsto> w\<lparr> stopping := True \<rparr>) \<rparr>
                 in if client w = None then stopWatcher_finally s1 r a
                    else s1\<lparr> awaiting_logout := awaiting_logout s1 @ [(r, a)] \<rparr>))"

definition logout_settled :: "state \<Rightarrow> nat \<Rightarrow> string \<Rightarrow> state" where
  "logout_settled s r a =
     (if (r, a) \<in> set (awaiting_logout s)
      then stopWatcher_finally (s\<lparr> awaiting_logout := remove1 (r, a) (awaiting_logout s) \<rparr>) r a
      else s)"

definition keepAliveWatcher :: "state \<Rightarrow> nat \<Rightarrow> state" where
  "keepAliveWatcher s r =
     (case watcher_objs s r of
        None \<Rightarrow> s
      | Some w \<Rightarrow>
          let s1 = clearTimeout s (idleTimer w)
          in if length (subscribers s1 w) = 0
             then (case setTimeout s1 (StopWatcherCb (accountId w)) 60000 of
                     (s2, t) \<Rightarrow> s2\<lparr> watcher_objs := (watcher_objs s2)(r \<mapsto> w\<lparr> idleTimer := Some t \<rparr>) \<rparr>)
             else (case setTimeout s1 (KeepAliveCb r) (5 * 60000) of
                     (s2, t) \<Rightarrow> s2\<lparr> watcher_objs := (watcher_objs s2)(r \<mapsto> w\<lparr> idleTimer := Some t \<rparr>) \<rparr>))"

text \<open>
  A pending timeout runs its callback once its due time has come, and is gone
  afterwards.
\<close>

definition fire_timeout :: "state \<Rightarrow> nat \<Rightarrow> state" where
  "fire_timeout s t =
     (case timeouts s t of
        None \<Rightarrow> s
      | Some (due, cb) \<Rightarrow>
          if now_ms s < due then s
          else
            let s1 = s\<lparr> timeouts := (timeouts s)(t := None) \<rparr>
            in case cb of
                 StopWatcherCb a \<Rightarrow> stopWatcher s1 a
               | KeepAliveCb r \<Rightarrow> keepAliveWatcher s1 r)"

definition advance_clock :: "state \<Rightarrow> nat \<Rightarrow> state" where
  "advance_clock s ms = s\<lparr> now_ms := now_ms s + ms \<rparr>"

subsection \<open>\<open>ensureWatcher\<close>\<close>

definition lookup_watcher :: "state \<Rightarrow> string \<Rightarrow> (nat \<times> watcher) option" where
  "lookup_watcher s a =
     (case watchers s a of
        None \<Rightarrow> None
      | Some r \<Rightarrow> (case watcher_objs s r of None \<Rightarrow> None | Some w \<Rightarrow> Some (r, w)))"

text \<open>
  The part of \<open>ensureWatcher\<close> that runs before it returns: reuse a registered watcher
  that has a client; otherwise load and decrypt the account, build a client, and
  register a new watcher object, which takes over the subscriber set of the object it
  replaces. The result is the new state and the watcher object returned. The \<open>await\<close> on
  the store is taken to settle before any other event is handled. The connection
  itself is made by the detached \<open>async\<close> block, whose continuation is
  \<open>watcher_ready\<close> or \<open>watcher_failed\<close>.
\<close>

definition ensureWatcher ::
  "node_lib \<Rightarrow> process_env \<Rightarrow> state \<Rightarrow> string \<Rightarrow> error + state \<times> nat" where
  "ensureWatcher L penv s a =
     (let old = lookup_watcher s a
      in case (case old of Some (r, w) \<Rightarrow> if client w \<noteq> None then Some r else None | None \<Rightarrow> None) of
           Some r \<Rightarrow> Inr (s, r)
         | None \<Rightarrow>
             (case loadAccount (store s) a True of
                Inl e \<Rightarrow> Inl e
              | Inr None \<Rightarrow> Inl AccountNotFound
              | Inr (Some acc) \<Rightarrow>
                  (case decryptJSON L penv (Some (enc acc)) (aad_of (acc_id acc) (integrationId acc)) of
                     Inl e \<Rightarrow> Inl e
                   | Inr sec \<Rightarrow>
                       let (s1, clients) =
                             (case old of
                                Some (r, w) \<Rightarrow> (s, sseClients w)
                              | None \<Rightarrow>
                                  (s\<lparr> set_objs := (set_objs s)(next_ref s \<mapsto> []),
                                       next_ref := next_ref s + 1 \<rparr>,
                                   next_ref s));
                           w = \<lparr> accountId = a, lastUid = 0,
                                 client = Some (imapConfigFromSecret sec),
                                 sseClients = clients, stopping = False, idleTimer = None \<rparr>;
                           r = next_ref s1
                       in Inr (s1\<lparr> watcher_objs := (watcher_objs s1)(r \<mapsto> w),
                                    watchers := (watchers s1)(a \<mapsto> r),
                                    next_ref := next_ref s1 + 1 \<rparr>,
                               r))))"

text \<open>
  The detached block after \<open>connect\<close>, \<open>mailboxOpen\<close> and \<open>status\<close> have succeeded, for
  the watcher object \<open>r\<close> it closes over and the \<open>uidNext\<close> the server reported
  (\<open>None\<close> when the status carries none): the baseline is
  \<^verbatim>\<open>Math.max(0, (status.uidNext || 1) - 1)\<close>. From here on the client's \<open>exists\<close>
  notifications reach the handler below.
\<close>

definition watcher_ready :: "state \<Rightarrow> nat \<Rightarrow> string \<Rightarrow> int option \<Rightarrow> state" where
  "watcher_ready s r a uidNext =
     (case watcher_objs s r of
        None \<Rightarrow> s
      | Some w \<Rightarrow>
          let u = (case uidNext of None \<Rightarrow> 1 | Some n \<Rightarrow> if n = 0 then 1 else n);
              s1 = s\<lparr> watcher_objs := (watcher_objs s)(r \<mapsto> w\<lparr> lastUid := max 0 (u - 1) \<rparr>) \<rparr>;
              s2 = keepAliveWatcher s1 r
          in broadcast s2 a (WatcherReady a))"

text \<open>The \<open>catch\<close> of the detached block.\<close>

definition watcher_failed :: "state \<Rightarrow> string \<Rightarrow> error \<Rightarrow> state" where
  "watcher_failed s a err = stopWatcher (broadcast s a (ErrorEvent err)) a"

text \<open>The client's \<open>error\<close> listener.\<close>

definition client_error :: "state \<Rightarrow> string \<Rightarrow> error \<Rightarrow> state" where
  "client_error s a err = broadcast s a (ErrorEvent err)"

subsection \<open>The \<open>exists\<close> handler\<close>

text \<open>
  The handler is an \<open>async\<close> function. Up to its first \<open>await\<close> it reads \<open>w.lastUid\<close>
  and asks the server for the UID range \<open>fromUid:*\<close>; \<open>exists_request\<close> is that range's
  lower end, or \<open>None\<close> when the handler returns at once because the watcher has no
  client.
\<close>

definition exists_request :: "state \<Rightarrow> nat \<Rightarrow> int option" where
  "exists_request s r =
     (case watcher_objs s r of
        None \<Rightarrow> None
      | Some w \<Rightarrow> if client w = None then None else Some (lastUid w + 1))"

text \<open>
  The body of the \<open>for await\<close> loop, for the UIDs of the messages the fetch yields, in
  the order it yields them: raise \<open>lastUid\<close>, then broadcast the event.
\<close>

fun exists_results :: "state \<Rightarrow> nat \<Rightarrow> string \<Rightarrow> int list \<Rightarrow> state" where
  "exists_results s r a [] = s"
| "exists_results s r a (uid # uids) =
     (case watcher_objs s r of
        None \<Rightarrow> s
      | Some w \<Rightarrow>
          let s1 = s\<lparr> watcher_objs := (watcher_objs s)(r \<mapsto> w\<lparr> lastUid := max (lastUid w) uid \<rparr>) \<rparr>
          in exists_results (broadcast s1 a (EmailReceived a uid)) r a uids)"

text \<open>The \<open>catch\<close> of the handler, when the fetch throws.\<close>

definition exists_failed :: "state \<Rightarrow> string \<Rightarrow> error \<Rightarrow> state" where
  "exists_failed s a err = broadcast s a (ErrorEvent err)"

text \<open>
  A mail server that answers a request for \<open>fromUid:*\<close> with the UIDs of its mailbox
  that are at least \<open>fromUid\<close>, in the mailbox's (ascending) order.
\<close>

definition uid_fetch :: "int list \<Rightarrow> int \<Rightarrow> int list" where
  "uid_fetch mailbox fromUid = filter (\<lambda>u. fromUid \<le> u) mailbox"

subsection \<open>Watch and stream routes\<close>

definition post_watch_start ::
  "node_lib \<Rightarrow> process_env \<Rightarrow> state \<Rightarrow> string \<Rightarrow> state \<times> (error + unit)" where
  "post_watch_start L penv s a =
     (case ensureWatcher L penv s a of
        Inl e \<Rightarrow> (s, Inl e)
      | Inr (s1, _) \<Rightarrow> (s1, Inr ()))"

definition post_watch_stop :: "state \<Rightarrow> string \<Rightarrow> state \<times> (error + unit)" where
  "post_watch_stop s a = (stopWatcher s a, Inr ())"

definition write_event :: "state \<Rightarrow> nat \<Rightarrow> event \<Rightarrow> state" where
  "write_event s res ev = s\<lparr> written := written s @ [(res, ev)] \<rparr>"

definition set_add :: "state \<Rightarrow> nat \<Rightarrow> nat \<Rightarrow> state" where
  "set_add s c res =
     (case set_objs s c of
        None \<Rightarrow> s
      | Some rs \<Rightarrow> s\<lparr> set_objs := (set_objs s)(c \<mapsto> (if res \<in> set rs then rs else rs @ [res])) \<rparr>)"

definition set_delete :: "state \<Rightarrow> nat \<Rightarrow> nat \<Rightarrow> state" where
  "set_delete s c res =
     (case set_objs s c of
        None \<Rightarrow> s
      | Some rs \<Rightarrow> s\<lparr> set_objs := (set_objs s)(c \<mapsto> removeAll res rs) \<rparr>)"

text \<open>
  \<open>GET /accounts/:id/stream\<close> for the response handle \<open>res\<close>, up to the registration of
  the \<open>close\<close> listener. The second component is the watcher object \<open>w\<close> that listener
  closes over (\<open>None\<close> when the lookup found none). The 25-second ping interval only
  writes to \<open>res\<close> and is left out.
\<close>

definition get_stream ::
  "node_lib \<Rightarrow> process_env \<Rightarrow> state \<Rightarrow> string \<Rightarrow> nat \<Rightarrow> state \<times> nat option" where
  "get_stream L penv s a res =
     (let s1 = (case ensureWatcher L penv s a of
                  Inl e \<Rightarrow> write_event s res (ErrorEvent e)
                | Inr (s', _) \<Rightarrow> s')
      in case lookup_watcher s1 a of
           None \<Rightarrow> (write_event (write_event s1 res WatcherUnavailable) res (SSEReady a), None)
         | Some (r, w) \<Rightarrow> (write_event (set_add s1 (sseClients w) res) res (SSEReady a), Some r))"

text \<open>The \<open>close\<close> listener of a stream, with the watcher object it closed over.\<close>

definition stream_closed :: "state \<Rightarrow> nat option \<Rightarrow> nat \<Rightarrow> state" where
  "stream_closed s captured res =
     (case captured of
        None \<Rightarrow> s
      | Some r \<Rightarrow>
          (case watcher_objs s r of
             None \<Rightarrow> s
           | Some w \<Rightarrow> keepAliveWatcher (set_delete s (sseClients w) res) r))"

section \<open>Account routes\<close>

subsection \<open>Request schemas\<close>

record create_request =
  cr_integrationId :: string
  cr_label :: "string option"
  cr_primaryEmail :: string
  cr_imap :: server_settings
  cr_smtp :: server_settings
  cr_testConnection :: bool

definition z_boolean_default_false :: "json option \<Rightarrow> bool option" where
  "z_boolean_default_false j =
     (case j of None \<Rightarrow> Some False | Some (JBool b) \<Rightarrow> Some b | _ \<Rightarrow> None)"

definition CreateAccountSchema_parse :: "node_lib \<Rightarrow> json \<Rightarrow> error + create_request" where
  "CreateAccountSchema_parse L body =
     (case body of
        JObj fs \<Rightarrow>
          (case (z_string_min1 (map_of fs ''integrationId''), z_string_optional (map_of fs ''label''),
                 z_email L (map_of fs ''primaryEmail''), ServerSettings (map_of fs ''imap''),
                 ServerSettings (map_of fs ''smtp''),
                 z_boolean_default_false (map_of fs ''testConnection'')) of
             (Some i, Some l, Some e, Some im, Some sm, Some t) \<Rightarrow>
               Inr \<lparr> cr_integrationId = i, cr_label = l, cr_primaryEmail = e,
                     cr_imap = im, cr_smtp = sm, cr_testConnection = t \<rparr>
           | _ \<Rightarrow> Inl ZodError)
      | _ \<Rightarrow> Inl ZodError)"

record raw_attachment =
  ra_filename :: string
  ra_contentBase64 :: string
  ra_contentType :: "string option"

record send_request =
  sr_to :: "string list"
  sr_cc :: "string list option"
  sr_bcc :: "string list option"
  sr_subject :: string
  sr_text :: "string option"
  sr_html :: "string option"
  sr_attachments :: "raw_attachment list option"

definition z_email_array :: "node_lib \<Rightarrow> json option \<Rightarrow> string list option" where
  "z_email_array L j =
     (case j of Some (JArr xs) \<Rightarrow> those (map (\<lambda>x. z_email L (Some x)) xs) | _ \<Rightarrow> None)"

definition z_email_array_nonempty :: "node_lib \<Rightarrow> json option \<Rightarrow> string list option" where
  "z_email_array_nonempty L j =
     (case z_email_array L j of Some (x # xs) \<Rightarrow> Some (x # xs) | _ \<Rightarrow> None)"

definition z_email_array_optional :: "node_lib \<Rightarrow> json option \<Rightarrow> string list option option" where
  "z_email_array_optional L j =
     (case j of None \<Rightarrow> Some None | Some _ \<Rightarrow> map_option Some (z_email_array L j))"

definition z_string_default_empty :: "json option \<Rightarrow> string option" where
  "z_string_default_empty j = (case j of None \<Rightarrow> Some [] | Some _ \<Rightarrow> z_string j)"

definition z_attachment :: "json \<Rightarrow> raw_attachment option" where
  "z_attachment j =
     (case j of
        JObj fs \<Rightarrow>
          (case (z_string (map_of fs ''filename''), z_string (map_of fs ''contentBase64''),
                 z_string_optional (map_of fs ''contentType'')) of
             (Some f, Some c, Some t) \<Rightarrow>
               Some \<lparr> ra_filename = f, ra_contentBase64 = c, ra_contentType = t \<rparr>
           | _ \<Rightarrow> None)
      | _ \<Rightarrow> None)"

definition z_attachments_optional :: "json option \<Rightarrow> raw_attachment list option option" where
  "z_attachments_optional j =
     (case j of
        None \<Rightarrow> Some None
      | Some (JArr xs) \<Rightarrow> map_option Some (those (map z_attachment xs))
      | Some _ \<Rightarrow> None)"

definition SendSchema_parse :: "node_lib \<Rightarrow> json \<Rightarrow> error + send_request" where
  "SendSchema_parse L body =
     (case body of
        JObj fs \<Rightarrow>
          (case (z_email_array_nonempty L (map_of fs ''to''), z_email_array_optional L (map_of fs ''cc''),
                 z_email_array_optional L (map_of fs ''bcc''), z_string_default_empty (map_of fs ''subject''),
                 z_string_optional (map_of fs ''text''), z_string_optional (map_of fs ''html''),
                 z_attachments_optional (map_of fs ''attachments'')) of
             (Some t, Some c, Some b, Some sj, Some tx, Some h, Some atts) \<Rightarrow>
               Inr \<lparr> sr_to = t, sr_cc = c, sr_bcc = b, sr_subject = sj, sr_text = tx,
                     sr_html = h, sr_attachments = atts \<rparr>
           | _ \<Rightarrow> Inl ZodError)
      | _ \<Rightarrow> Inl ZodError)"

subsection \<open>\<open>POST /accounts\<close>\<close>

text \<open>
  \<open>newId\<close> is the result of \<open>ulid()\<close>, \<open>salt\<close> and \<open>iv\<close> the random bytes drawn by
  \<open>encryptJSON\<close>, \<open>now\<close> the timestamp \<open>new Date().toISOString()\<close>. The record is
  written first and the index second; when the second write is refused the first stays.
\<close>

definition post_accounts ::
  "node_lib \<Rightarrow> process_env \<Rightarrow> network \<Rightarrow> state \<Rightarrow> json \<Rightarrow> string \<Rightarrow> bytes \<Rightarrow> bytes \<Rightarrow> string
     \<Rightarrow> state \<times> (error + string)" where
  "post_accounts L penv net s body newId salt iv now =
     (case CreateAccountSchema_parse L body of
        Inl e \<Rightarrow> (s, Inl e)
      | Inr b \<Rightarrow>
          let sec = \<lparr> label = cr_label b, primaryEmail = cr_primaryEmail b,
                      imap = cr_imap b, smtp = cr_smtp b \<rparr>;
              tested =
                (if cr_testConnection b
                 then (case smtp_verify net (smtpTransportFromSecret sec) of
                         Some e \<Rightarrow> Some e
                       | None \<Rightarrow> imap_login net (imapConfigFromSecret sec))
                 else None)
          in case tested of
               Some e \<Rightarrow> (s, Inl e)
             | None \<Rightarrow>
                 (case encryptJSON L penv salt iv sec (aad_of newId (cr_integrationId b)) of
                    Inl e \<Rightarrow> (s, Inl e)
                  | Inr en \<Rightarrow>
                      let recd = \<lparr> acc_id = newId, integrationId = cr_integrationId b,
                                     createdAt = now, updatedAt = now, enc = en \<rparr>;
                          r1 = redis_set (store s) (kAccount newId) recd
                      in case redis_sadd r1 (kUserIndex (cr_integrationId b)) newId of
                           Inl e \<Rightarrow> (s\<lparr> store := r1 \<rparr>, Inl e)
                         | Inr r2 \<Rightarrow> (s\<lparr> store := r2 \<rparr>, Inr newId)))"

subsection \<open>\<open>GET /accounts\<close>\<close>

record account_summary =
  sum_id :: string
  sum_integrationId :: string
  sum_label :: "string option"
  primaryEmailMasked :: string
  sum_createdAt :: string
  sum_updatedAt :: string

text \<open>
  The object pushed for one record. \<^verbatim>\<open>secret.label || null\<close> is \<open>null\<close> for a missing
  and for an empty label.
\<close>

definition summary_of :: "account_record \<Rightarrow> secret \<Rightarrow> account_summary" where
  "summary_of rec sec =
     \<lparr> sum_id = acc_id rec,
       sum_integrationId = integrationId rec,
       sum_label = (case label sec of None \<Rightarrow> None | Some l \<Rightarrow> if l = [] then None else Some l),
       primaryEmailMasked = maskEmail (primaryEmail sec),
       sum_createdAt = createdAt rec,
       sum_updatedAt = updatedAt rec \<rparr>"

text \<open>The loop over the members of the tenant's index, with the accumulator \<open>out\<close>.\<close>

fun list_loop ::
  "node_lib \<Rightarrow> process_env \<Rightarrow> redis \<Rightarrow> string list \<Rightarrow> account_summary list
     \<Rightarrow> error + account_summary list" where
  "list_loop L penv r [] out = Inr out"
| "list_loop L penv r (i # ids) out =
     (case loadAccount r i False of
        Inl e \<Rightarrow> Inl e
      | Inr None \<Rightarrow> list_loop L penv r ids out
      | Inr (Some rec) \<Rightarrow>
          (case decryptJSON L penv (Some (enc rec)) (aad_of (acc_id rec) (integrationId rec)) of
             Inl e \<Rightarrow> Inl e
           | Inr sec \<Rightarrow> list_loop L penv r ids (out @ [summary_of rec sec])))"

text \<open>
  The query parameter is \<open>None\<close> when the request has none;
  \<^verbatim>\<open>String(req.query.integrationId || "")\<close> is then the empty string.
\<close>

definition get_accounts ::
  "node_lib \<Rightarrow> process_env \<Rightarrow> state \<Rightarrow> string option \<Rightarrow> error + account_summary list" where
  "get_accounts L penv s q =
     (let i = (case q of None \<Rightarrow> [] | Some x \<Rightarrow> x)
      in if i = [] then Inl IntegrationIdRequired
         else (case redis_smembers (store s) (kUserIndex i) of
                 Inl e \<Rightarrow> Inl e
               | Inr ids \<Rightarrow> list_loop L penv (store s) ids []))"

subsection \<open>\<open>PUT /accounts/:id\<close> and \<open>DELETE /accounts/:id\<close>\<close>

text \<open>
  \<open>loadAccount\<close> is called with \<open>mustExist\<close> at its default, so a missing record is the
  error \<open>AccountNotFound\<close> and the handler's own test \<open>!acc\<close> never holds.
\<close>

definition put_account ::
  "node_lib \<Rightarrow> process_env \<Rightarrow> state \<Rightarrow> string \<Rightarrow> json \<Rightarrow> bytes \<Rightarrow> bytes \<Rightarrow> string
     \<Rightarrow> state \<times> (error + unit)" where
  "put_account L penv s a body salt iv now =
     (case loadAccount (store s) a True of
        Inl e \<Rightarrow> (s, Inl e)
      | Inr None \<Rightarrow> (s, Inl AccountNotFound)
      | Inr (Some acc) \<Rightarrow>
          (case SecretPayload_parse L body of
             Inl e \<Rightarrow> (s, Inl e)
           | Inr b \<Rightarrow>
               (case encryptJSON L penv salt iv b (aad_of (acc_id acc) (integrationId acc)) of
                  Inl e \<Rightarrow> (s, Inl e)
                | Inr en \<Rightarrow>
                    (s\<lparr> store := redis_set (store s) (kAccount (acc_id acc))
                                   (acc\<lparr> enc := en, updatedAt := now \<rparr>) \<rparr>,
                     Inr ()))))"

definition delete_account :: "state \<Rightarrow> string \<Rightarrow> state \<times> (error + unit)" where
  "delete_account s a =
     (case loadAccount (store s) a False of
        Inl e \<Rightarrow> (s, Inl e)
      | Inr None \<Rightarrow> (s, Inr ())
      | Inr (Some acc) \<Rightarrow>
          let r1 = redis_del (store s) (kAccount (acc_id acc))
          in case redis_srem r1 (kUserIndex (integrationId acc)) (acc_id acc) of
               Inl e \<Rightarrow> (s\<lparr> store := r1 \<rparr>, Inl e)
             | Inr r2 \<Rightarrow> (s\<lparr> store := r2 \<rparr>, Inr ()))"

subsection \<open>\<open>POST /accounts/:id/send\<close>\<close>

text \<open>The message object of the \<open>sendMail\<close> call.\<close>

definition outbound_mail :: "node_lib \<Rightarrow> secret \<Rightarrow> send_request \<Rightarrow> mail" where
  "outbound_mail L sec msg =
     \<lparr> mail_from = username (smtp sec),
       mail_to = sr_to msg,
       mail_cc = sr_cc msg,
       mail_bcc = sr_bcc msg,
       mail_subject = sr_subject msg,
       mail_text = sr_text msg,
       mail_html = sr_html msg,
       mail_attachments =
         map (\<lambda>x. \<lparr> att_filename = ra_filename x,
                     att_content = from_base64 L (ra_contentBase64 x),
                     att_contentType = ra_contentType x \<rparr>)
             (case sr_attachments msg of None \<Rightarrow> [] | Some xs \<Rightarrow> xs) \<rparr>"

text \<open>
  The handler's answer, together with the \<open>sendMail\<close> calls it made: the transport
  options and the message of each.
\<close>

definition post_send ::
  "node_lib \<Rightarrow> process_env \<Rightarrow> network \<Rightarrow> state \<Rightarrow> string \<Rightarrow> json
     \<Rightarrow> (error + send_info) \<times> (smtp_transport \<times> mail) list" where
  "post_send L penv net s a body =
     (case SendSchema_parse L body of
        Inl e \<Rightarrow> (Inl e, [])
      | Inr msg \<Rightarrow>
          (case loadAccount (store s) a True of
             Inl e \<Rightarrow> (Inl e, [])
           | Inr None \<Rightarrow> (Inl AccountNotFound, [])
           | Inr (Some acc) \<Rightarrow>
               (case decryptJSON L penv (Some (enc acc)) (aad_of (acc_id acc) (integrationId acc)) of
                  Inl e \<Rightarrow> (Inl e, [])
                | Inr sec \<Rightarrow>
                    let transporter = smtpTransportFromSecret sec;
                        m = outbound_mail L sec msg
                    in (smtp_sendMail net transporter m, [(transporter, m)]))))"

text \<open>
  The routes address a record by the key of the id in the request and then work with the
  \<open>id\<close> field of what they loaded. The two agree in a store where every record sits
  under the key of its own id, as \<open>POST /accounts\<close> writes it.
\<close>

definition own_key :: "redis \<Rightarrow> bool" where
  "own_key r \<longleftrightarrow> (\<forall>a acc. r (kAccount a) = Some (RObject acc) \<longrightarrow> acc_id acc = a)"

section \<open>Contracts of the library primitives and a reference instance\<close>

text \<open>
  What the envelope relies on from the primitives: decoding base64 text gives back the
  encoded buffer; the decipher returns the plaintext when it runs with the key, IV and
  associated data of the cipher, and throws when the associated data is different.
\<close>

definition base64_roundtrip :: "node_lib \<Rightarrow> bool" where
  "base64_roundtrip L \<longleftrightarrow> (\<forall>b. from_base64 L (to_base64 L b) = b)"

definition aead_contract :: "node_lib \<Rightarrow> bool" where
  "aead_contract L \<longleftrightarrow>
     (\<forall>key iv aad pt.
        gcm_decrypt L key iv aad (snd (gcm_encrypt L key iv aad pt)) (fst (gcm_encrypt L key iv aad pt))
          = Some pt
        \<and> (\<forall>aad'. aad' \<noteq> aad \<longrightarrow>
              gcm_decrypt L key iv aad' (snd (gcm_encrypt L key iv aad pt))
                (fst (gcm_encrypt L key iv aad pt)) = None))"

text \<open>
  Sample data: a secret with the shape the schemas accept, a 32-byte master key, an
  account id as \<open>ulid()\<close> produces them.
\<close>

definition sample_secret :: secret where
  "sample_secret =
     \<lparr> label = None, primaryEmail = ''a@b.co'',
       imap = \<lparr> server = ''imap.x'', port = 993, username = ''a@b.co'', password = ''p'',
                connection = ''SSL/TLS'' \<rparr>,
       smtp = \<lparr> server = ''smtp.x'', port = 587, username = ''sender@b.co'', password = ''p'',
                connection = ''STARTTLS'' \<rparr> \<rparr>"

definition sample_env :: process_env where
  "sample_env = \<lparr> CONFIG_MASTER_KEY_BASE64 = Some ''0123456789abcdef0123456789abcdef'' \<rparr>"

definition sample_id :: string where
  "sample_id = ''01ARZ3NDEKTSV4RRFFQ69G5FAV''"

text \<open>
  A serialisation of secrets for the reference instance below: every string is written
  after its length in unary, the port after its sign in unary, the optional label after
  a marker; parsing reads the fields back in the same order and accepts nothing after
  the last.
\<close>

fun take_unary :: "string \<Rightarrow> nat \<times> string" where
  "take_unary [] = (0, [])"
| "take_unary (c # cs) =
     (if c = CHR ''1'' then (case take_unary cs of (n, rest) \<Rightarrow> (Suc n, rest)) else (0, cs))"

definition put_nat :: "nat \<Rightarrow> string" where
  "put_nat n = replicate n (CHR ''1'') @ ''0''"

definition put_string :: "string \<Rightarrow> string" where
  "put_string s = put_nat (length s) @ s"

definition get_string :: "string \<Rightarrow> (string \<times> string) option" where
  "get_string t =
     (case take_unary t of
        (n, rest) \<Rightarrow> if n \<le> length rest then Some (take n rest, drop n rest) else None)"

definition put_int :: "int \<Rightarrow> string" where
  "put_int i = (if i < 0 then ''-'' else ''+'') @ put_nat (nat \<bar>i\<bar>)"

definition get_int :: "string \<Rightarrow> (int \<times> string) option" where
  "get_int t =
     (case t of
        [] \<Rightarrow> None
      | c # cs \<Rightarrow>
          (case take_unary cs of
             (n, rest) \<Rightarrow> Some (if c = CHR ''-'' then - int n else int n, rest)))"

definition put_label :: "string option \<Rightarrow> string" where
  "put_label l = (case l of None \<Rightarrow> ''N'' | Some s \<Rightarrow> ''S'' @ put_string s)"

definition get_label :: "string \<Rightarrow> (string option \<times> string) option" where
  "get_label t =
     (case t of
        [] \<Rightarrow> None
      | c # cs \<Rightarrow>
          if c = CHR ''N'' then Some (None, cs)
          else (case get_string cs of None \<Rightarrow> None | Some (s, rest) \<Rightarrow> Some (Some s, rest)))"

definition put_settings :: "server_settings \<Rightarrow> string" where
  "put_settings st =
     put_string (server st) @ put_int (port st) @ put_string (username st)
       @ put_string (password st) @ put_string (connection st)"

definition get_settings :: "string \<Rightarrow> (server_settings \<times> string) option" where
  "get_settings t =
     (case get_string t of None \<Rightarrow> None | Some (sv, t1) \<Rightarrow>
      case get_int t1 of None \<Rightarrow> None | Some (p, t2) \<Rightarrow>
      case get_string t2 of None \<Rightarrow> None | Some (u, t3) \<Rightarrow>
      case get_string t3 of None \<Rightarrow> None | Some (pw, t4) \<Rightarrow>
      case get_string t4 of None \<Rightarrow> None | Some (c, t5) \<Rightarrow>
        Some (\<lparr> server = sv, port = p, username = u, password = pw, connection = c \<rparr>, t5))"

definition reference_stringify :: "secret \<Rightarrow> string" where
  "reference_stringify s =
     put_label (label s) @ put_string (primaryEmail s) @ put_settings (imap s) @ put_settings (smtp s)"

definition reference_parse :: "string \<Rightarrow> secret option" where
  "reference_parse t =
     (case get_label t of None \<Rightarrow> None | Some (l, t1) \<Rightarrow>
      case get_string t1 of None \<Rightarrow> None | Some (e, t2) \<Rightarrow>
      case get_settings t2 of None \<Rightarrow> None | Some (i, t3) \<Rightarrow>
      case get_settings t3 of None \<Rightarrow> None | Some (sm, t4) \<Rightarrow>
        if t4 = [] then Some \<lparr> label = l, primaryEmail = e, imap = i, smtp = sm \<rparr> else None)"

text \<open>
  A reference instance of the primitives, for running the model on concrete inputs:
  the identity as text encoding, a key derivation that joins its arguments, a cipher
  that leaves the plaintext as it is and whose tag spells out key, IV, associated data
  and ciphertext, the serialisation above, and an address test that looks for an \<open>@\<close>.
\<close>

definition ideal_lib :: node_lib where
  "ideal_lib =
     \<lparr> to_base64 = (\<lambda>b. b),
       from_base64 = (\<lambda>s. s),
       hkdfSync = (\<lambda>master salt info. master @ salt @ info),
       gcm_encrypt = (\<lambda>key iv aad pt. (pt, key @ iv @ aad @ pt)),
       gcm_decrypt = (\<lambda>key iv aad tag ct. if tag = key @ iv @ aad @ ct then Some ct else None),
       json_stringify = reference_stringify,
       json_parse = reference_parse,
       is_email = (\<lambda>s. CHR ''@'' \<in> set s) \<rparr>"

text \<open>Mail servers that accept every login and every message.\<close>

definition obliging_network :: network where
  "obliging_network =
     \<lparr> smtp_verify = (\<lambda>t. None),
       smtp_sendMail = (\<lambda>t m. Inr \<lparr> messageId = ''<1@smtp.x>'', accepted = mail_to m, rejected = [] \<rparr>),
       imap_login = (\<lambda>c. None) \<rparr>"

text \<open>
  A store holding one account of tenant \<open>u1\<close>, sealed by \<open>encryptJSON\<close> under the
  reference instance, whose index also names an account that has no record; and the
  process right after start over that store.
\<close>

definition sample_record :: account_record where
  "sample_record =
     \<lparr> acc_id = sample_id, integrationId = ''u1'',
       createdAt = ''2024-01-01T12:00:00.000Z'', updatedAt = ''2024-01-01T12:00:00.000Z'',
       enc = projr (encryptJSON ideal_lib sample_env ''0123456789abcdef'' ''0123456789ab''
                      sample_secret (aad_of sample_id ''u1'')) \<rparr>"

definition sample_store :: redis where
  "sample_store =
     [kAccount sample_id \<mapsto> RObject sample_record,
      kUserIndex ''u1'' \<mapsto> RSet [''01BX5ZZKBKACTAV9WEVGEMMVRZ'', sample_id]]"

definition sample_state :: state where
  "sample_state = initial_state sample_store"

definition no_master_key :: process_env where
  "no_master_key = \<lparr> CONFIG_MASTER_KEY_BASE64 = None \<rparr>"



text \<open>
  A run of the watcher for the sample account. A first client (response handle 7)
  opens the stream, which creates the watcher (object 1, with the subscriber set
  object 0); the connection succeeds with \<open>UIDNEXT = 1001\<close>.
\<close>

definition sample_watcher :: watcher where
  "sample_watcher =
     \<lparr> accountId = sample_id, lastUid = 0, client = Some (imapConfigFromSecret sample_secret),
       sseClients = 0, stopping = False, idleTimer = None \<rparr>"

definition watching_state :: state where
  "watching_state =
     watcher_ready (fst (get_stream ideal_lib sample_env sample_state sample_id 7))
       1 sample_id (Some 1001)"

text \<open>
  Five seconds later that client disconnects; ten seconds after that a second client
  (handle 8) opens the stream; fifty seconds after that, 60 seconds after the
  disconnection, timeout 3 is due and runs, and the \<open>logout\<close> it awaits settles.
\<close>

definition detached_state :: state where
  "detached_state = stream_closed (advance_clock watching_state 5000) (Some 1) 7"

definition reattached_state :: state where
  "reattached_state =
     fst (get_stream ideal_lib sample_env (advance_clock detached_state 10000) sample_id 8)"

definition torn_down_state :: state where
  "torn_down_state =
     logout_settled (fire_timeout (advance_clock reattached_state 50000) 3) 1 sample_id"

text \<open>
  The sample account with a watcher started by \<open>watch/start\<close>, and the process after
  the account is then deleted.
\<close>

definition watched_state :: state where
  "watched_state = fst (post_watch_start ideal_lib sample_env sample_state sample_id)"

definition deleted_state :: state where
  "deleted_state = fst (delete_account watched_state sample_id)"

section \<open>Properties\<close>

subsection \<open>The reference instance meets the contracts\<close>

lemma ideal_lib_base64: "base64_roundtrip ideal_lib"
  by (simp add: base64_roundtrip_def ideal_lib_def)

lemma ideal_lib_aead: "aead_contract ideal_lib"
  by (simp add: aead_contract_def ideal_lib_def)

lemma take_unary_put_nat: "take_unary (put_nat n @ rest) = (n, rest)"
  by (induction n) (simp_all add: put_nat_def)

lemma get_string_put_string: "get_string (put_string s @ rest) = Some (s, rest)"
  by (simp add: get_string_def put_string_def take_unary_put_nat)

lemma get_int_put_int: "get_int (put_int i @ rest) = Some (i, rest)"
  by (simp add: get_int_def put_int_def take_unary_put_nat)

lemma get_label_put_label: "get_label (put_label l @ rest) = Some (l, rest)"
  by (cases l) (simp_all add: get_label_def put_label_def get_string_put_string)

lemma get_settings_put_settings: "get_settings (put_settings st @ rest) = Some (st, rest)"
  by (simp add: get_settings_def put_settings_def get_string_put_string get_int_put_int)

lemma reference_parse_stringify: "reference_parse (reference_stringify s) = Some s"
  using get_settings_put_settings [of "smtp s" "[]"]
  by (simp add: reference_parse_def reference_stringify_def get_label_put_label
      get_string_put_string get_settings_put_settings)

lemma ideal_lib_json: "json_parse ideal_lib (json_stringify ideal_lib s) = Some s"
  by (simp add: ideal_lib_def reference_parse_stringify)

lemma sample_master_key:
  "getMasterKey ideal_lib sample_env = Inr ''0123456789abcdef0123456789abcdef''"
  by (simp add: getMasterKey_def ideal_lib_def sample_env_def)

subsection \<open>Sealing and opening an envelope\<close>

lemma aad_of_inject_account: "aad_of a2 t = aad_of a t \<longleftrightarrow> a2 = a"
  by (simp add: aad_of_def)

lemma aad_of_inject_tenant: "aad_of a t2 = aad_of a t \<longleftrightarrow> t2 = t"
  by (simp add: aad_of_def)

lemma encryptJSON_ok:
  assumes "getMasterKey L penv = Inr master"
  shows "encryptJSON L penv salt iv s aad =
           Inr \<lparr> env_v = 1, env_alg = ''AES-256-GCM'',
                 env_salt = to_base64 L salt, env_iv = to_base64 L iv,
                 env_tag = to_base64 L (snd (gcm_encrypt L (hkdfSync L master salt ''mailbox:v1'') iv aad (json_stringify L s))),
                 env_ct = to_base64 L (fst (gcm_encrypt L (hkdfSync L master salt ''mailbox:v1'') iv aad (json_stringify L s))) \<rparr>"
  using assms by (simp add: encryptJSON_def hkdfSubkey_def split: prod.split)

lemma decrypt_sealed:
  assumes key: "getMasterKey L penv = Inr master"
    and b64: "base64_roundtrip L"
    and aead: "aead_contract L"
    and sealed: "encryptJSON L penv salt iv s aad = Inr env"
  shows "decryptJSON L penv (Some env) aad' =
           (if aad' = aad
            then (case json_parse L (json_stringify L s) of None \<Rightarrow> Inl JsonSyntaxError | Some x \<Rightarrow> Inr x)
            else Inl AuthenticationFailed)"
proof -
  let ?k = "hkdfSync L master salt ''mailbox:v1''"
  let ?c = "gcm_encrypt L ?k iv aad (json_stringify L s)"
  have env: "env = \<lparr> env_v = 1, env_alg = ''AES-256-GCM'',
                 env_salt = to_base64 L salt, env_iv = to_base64 L iv,
                 env_tag = to_base64 L (snd ?c), env_ct = to_base64 L (fst ?c) \<rparr>"
    using sealed encryptJSON_ok [OF key, of salt iv s aad] by simp
  have dec: "from_base64 L (to_base64 L x) = x" for x
    using b64 by (simp add: base64_roundtrip_def)
  have same: "gcm_decrypt L ?k iv aad (snd ?c) (fst ?c) = Some (json_stringify L s)"
    using aead by (simp add: aead_contract_def)
  have other: "aad' \<noteq> aad \<Longrightarrow> gcm_decrypt L ?k iv aad' (snd ?c) (fst ?c) = None"
    using aead by (simp add: aead_contract_def)
  show ?thesis
    using same other by (simp add: decryptJSON_def hkdfSubkey_def key env dec)
qed

text \<open>
  Claim C1. Let the master key be configured, and let the primitives meet their
  contracts (\<open>base64_roundtrip\<close>, \<open>aead_contract\<close>, and \<open>JSON.parse\<close> inverting
  \<open>JSON.stringify\<close> on the secret). Then for every secret \<open>s\<close>, every salt and IV drawn
  and every pair of ids \<open>a\<close>, \<open>t\<close>: \<open>encryptJSON\<close> under the associated data \<open>a:t\<close>
  succeeds, \<open>decryptJSON\<close> of its result under \<open>a:t\<close> returns \<open>s\<close>, and \<open>decryptJSON\<close>
  under the associated data of any other account id, or of any other tenant id, fails
  with the authentication error and returns no secret.
\<close>

theorem envelope_round_trip_and_aad_binding:
  assumes key: "getMasterKey L penv = Inr master"
    and b64: "base64_roundtrip L"
    and aead: "aead_contract L"
    and js: "json_parse L (json_stringify L s) = Some s"
  shows "\<exists>env. encryptJSON L penv salt iv s (aad_of a t) = Inr env
           \<and> decryptJSON L penv (Some env) (aad_of a t) = Inr s
           \<and> (\<forall>a2. a2 \<noteq> a \<longrightarrow> decryptJSON L penv (Some env) (aad_of a2 t) = Inl AuthenticationFailed)
           \<and> (\<forall>t2. t2 \<noteq> t \<longrightarrow> decryptJSON L penv (Some env) (aad_of a t2) = Inl AuthenticationFailed)"
proof -
  obtain env where sealed: "encryptJSON L penv salt iv s (aad_of a t) = Inr env"
    using encryptJSON_ok [OF key] by blast
  have d: "decryptJSON L penv (Some env) x =
             (if x = aad_of a t then Inr s else Inl AuthenticationFailed)" for x
    using decrypt_sealed [OF key b64 aead sealed, of x] js by simp
  show ?thesis
    using sealed d by (simp add: aad_of_inject_account aad_of_inject_tenant)
qed

theorem envelope_round_trip_and_aad_binding_witness:
  "decryptJSON ideal_lib sample_env
      (Some (projr (encryptJSON ideal_lib sample_env ''0123456789abcdef'' ''0123456789ab''
                      sample_secret (aad_of sample_id ''u1''))))
      (aad_of sample_id ''u1'') = Inr sample_secret
   \<and> decryptJSON ideal_lib sample_env
      (Some (projr (encryptJSON ideal_lib sample_env ''0123456789abcdef'' ''0123456789ab''
                      sample_secret (aad_of sample_id ''u1''))))
      (aad_of ''01BX5ZZKBKACTAV9WEVGEMMVRZ'' ''u1'') = Inl AuthenticationFailed
   \<and> decryptJSON ideal_lib sample_env
      (Some (projr (encryptJSON ideal_lib sample_env ''0123456789abcdef'' ''0123456789ab''
                      sample_secret (aad_of sample_id ''u1''))))
      (aad_of sample_id ''u2'') = Inl AuthenticationFailed"
proof -
  have js: "json_parse ideal_lib (json_stringify ideal_lib sample_secret) = Some sample_secret"
    by (rule ideal_lib_json)
  show ?thesis
    using envelope_round_trip_and_aad_binding
      [OF sample_master_key ideal_lib_base64 ideal_lib_aead js,
       of "''0123456789abcdef''" "''0123456789ab''" sample_id "''u1''"]
    by (auto simp: sample_id_def)
qed

subsection \<open>Splitting an address\<close>

lemma js_split_no_sep: "c \<notin> set s \<Longrightarrow> js_split c s = [s]"
  by (induction s) auto

lemma js_split_first_sep:
  "c \<notin> set name \<Longrightarrow> js_split c (name @ c # rest) = name # js_split c rest"
  by (induction name) auto

lemma js_split_address:
  assumes "CHR ''@'' \<notin> set name" and "CHR ''@'' \<notin> set domain"
  shows "js_split (CHR ''@'') (name @ ''@'' @ domain) = [name, domain]"
  using assms by (simp add: js_split_first_sep js_split_no_sep)

subsection \<open>Email masking\<close>

text \<open>
  Claim C5, as the specification states it, fails at its own boundary example: the address
  \<open>a@b.co\<close>, whose local part has one character, is masked to \<open>a*@b.co\<close>, not returned
  unchanged.
\<close>

theorem maskEmail_boundary_counterexample:
  "maskEmail ''a@b.co'' = ''a*@b.co'' \<and> maskEmail ''a@b.co'' \<noteq> ''a@b.co''"
  by (simp add: maskEmail_def js_char_at_def)

text \<open>
  Claim C5, amended. For an address \<open>name@domain\<close> with a non-empty local part, a non-empty
  domain and no further \<open>@\<close>: when the local part has \<open>n \<ge> 3\<close> characters the masked form is
  its first character, \<open>n - 2\<close> asterisks, its last character, \<open>@\<close> and the domain; when it
  has one or two characters the masked form is its first character, one asterisk, \<open>@\<close> and
  the domain. In both cases the domain is kept verbatim and the masked local part contains
  an asterisk.
\<close>

theorem maskEmail_shape:
  assumes "name \<noteq> []" and "domain \<noteq> []"
    and "CHR ''@'' \<notin> set name" and "CHR ''@'' \<notin> set domain"
  shows "maskEmail (name @ ''@'' @ domain) =
           (if length name \<le> 2 then [hd name] @ ''*''
            else [hd name] @ replicate (length name - 2) (CHR ''*'') @ [last name])
           @ ''@'' @ domain
         \<and> CHR ''*'' \<in> set (if length name \<le> 2 then [hd name] @ ''*''
            else [hd name] @ replicate (length name - 2) (CHR ''*'') @ [last name])"
proof -
  have split: "js_split (CHR ''@'') (name @ CHR ''@'' # domain) = [name, domain]"
    using js_split_address [OF assms(3,4)] by simp
  have first: "js_char_at name 0 = [hd name]"
    using assms(1) by (simp add: js_char_at_def hd_conv_nth)
  show ?thesis
  proof (cases "length name \<le> 2")
    case True
    then show ?thesis
      using assms(2) first by (simp add: maskEmail_def split)
  next
    case False
    then have n3: "3 \<le> length name" by simp
    have lastc: "js_char_at name (int (length name) - 1) = [last name]"
      using assms(1) n3 by (simp add: js_char_at_def last_conv_nth nat_diff_distrib)
    have stars: "js_repeat_star (max 1 (int (length name) - 2)) = replicate (length name - 2) (CHR ''*'')"
      using n3 by (simp add: js_repeat_star_def nat_diff_distrib max_def)
    show ?thesis
      using False assms(2) first lastc stars n3 by (simp add: maskEmail_def split)
  qed
qed

theorem maskEmail_shape_witness:
  "maskEmail (''alice'' @ ''@'' @ ''example.com'') = ''a***e@example.com''
   \<and> maskEmail (''al'' @ ''@'' @ ''b.co'') = ''a*@b.co''"
proof -
  have a: "maskEmail (''alice'' @ ''@'' @ ''example.com'') = ''a***e@example.com''"
    using maskEmail_shape [of "''alice''" "''example.com''"] by (simp add: numeral_eq_Suc)
  have b: "maskEmail (''al'' @ ''@'' @ ''b.co'') = ''a*@b.co''"
    using maskEmail_shape [of "''al''" "''b.co''"] by simp
  show ?thesis using a b by simp
qed

subsection \<open>Connection mode\<close>

lemma ConnType_Some: "ConnType j = Some c \<Longrightarrow> c = ''SSL/TLS'' \<or> c = ''STARTTLS''"
  by (auto simp: ConnType_def split: option.splits json.splits if_splits)

lemma ServerSettings_connection:
  "ServerSettings j = Some st \<Longrightarrow> connection st = ''SSL/TLS'' \<or> connection st = ''STARTTLS''"
  by (auto simp: ServerSettings_def split: option.splits json.splits dest: ConnType_Some)

text \<open>
  Claim C6, as the specification states it, fails on the literal of the enumeration:
  the schema accepts the connection value \<open>SSL/TLS\<close>, which is neither \<open>TLS\<close> nor
  \<open>STARTTLS\<close>, and it rejects \<open>TLS\<close>.
\<close>

theorem connection_mode_counterexample:
  "ServerSettings_parse
     (JObj [(''server'', JStr ''smtp.x''), (''port'', JNum 465), (''username'', JStr ''a@b.co''),
            (''password'', JStr ''p''), (''connection'', JStr ''SSL/TLS'')])
     = Inr \<lparr> server = ''smtp.x'', port = 465, username = ''a@b.co'', password = ''p'',
             connection = ''SSL/TLS'' \<rparr>
   \<and> ''SSL/TLS'' \<noteq> ''TLS'' \<and> ''SSL/TLS'' \<noteq> ''STARTTLS''
   \<and> ServerSettings_parse
     (JObj [(''server'', JStr ''smtp.x''), (''port'', JNum 465), (''username'', JStr ''a@b.co''),
            (''password'', JStr ''p''), (''connection'', JStr ''TLS'')])
     = Inl ZodError"
  by (simp add: ServerSettings_parse_def ServerSettings_def z_string_min1_def z_int_positive_def
      ConnType_def)

text \<open>
  Claim C6, amended. Every \<open>ServerSettings\<close> the schema accepts has \<open>connection\<close> equal to
  \<open>SSL/TLS\<close> or \<open>STARTTLS\<close>, and a body whose \<open>connection\<close> is any other string is a
  validation error. The SMTP transport built from a secret with these settings uses
  implicit TLS (\<open>secure\<close>) exactly when \<open>connection\<close> is \<open>SSL/TLS\<close> and requires the
  STARTTLS upgrade (\<open>requireTLS\<close>) exactly when it is \<open>STARTTLS\<close>; exactly one of the
  two is set.
\<close>

theorem connection_mode:
  assumes "ServerSettings_parse j = Inr st"
  shows "(connection st = ''SSL/TLS'' \<or> connection st = ''STARTTLS'')
       \<and> (\<forall>sec. smtp sec = st \<longrightarrow>
            (smtp_secure (smtpTransportFromSecret sec) \<longleftrightarrow> connection st = ''SSL/TLS'')
          \<and> (smtp_requireTLS (smtpTransportFromSecret sec) \<longleftrightarrow> connection st = ''STARTTLS'')
          \<and> (smtp_secure (smtpTransportFromSecret sec) \<longleftrightarrow> \<not> smtp_requireTLS (smtpTransportFromSecret sec)))
       \<and> (\<forall>fs c. map_of fs ''connection'' = Some (JStr c) \<and> c \<noteq> ''SSL/TLS'' \<and> c \<noteq> ''STARTTLS''
            \<longrightarrow> ServerSettings_parse (JObj fs) = Inl ZodError)"
proof -
  have c: "connection st = ''SSL/TLS'' \<or> connection st = ''STARTTLS''"
    using assms ServerSettings_connection [of "Some j" st]
    by (simp add: ServerSettings_parse_def split: option.splits)
  have rej: "ServerSettings_parse (JObj fs) = Inl ZodError"
    if "map_of fs ''connection'' = Some (JStr c)" "c \<noteq> ''SSL/TLS''" "c \<noteq> ''STARTTLS''" for fs c
    using that by (simp add: ServerSettings_parse_def ServerSettings_def ConnType_def split: option.splits)
  show ?thesis
    using c rej by (auto simp: smtpTransportFromSecret_def)
qed

theorem connection_mode_witness:
  "ServerSettings_parse
     (JObj [(''server'', JStr ''smtp.x''), (''port'', JNum 587), (''username'', JStr ''sender@b.co''),
            (''password'', JStr ''p''), (''connection'', JStr ''STARTTLS'')]) = Inr (smtp sample_secret)
   \<and> smtp_requireTLS (smtpTransportFromSecret sample_secret)
   \<and> \<not> smtp_secure (smtpTransportFromSecret sample_secret)
   \<and> ServerSettings_parse (JObj [(''connection'', JStr ''TLS'')]) = Inl ZodError"
proof -
  have p: "ServerSettings_parse
     (JObj [(''server'', JStr ''smtp.x''), (''port'', JNum 587), (''username'', JStr ''sender@b.co''),
            (''password'', JStr ''p''), (''connection'', JStr ''STARTTLS'')]) = Inr (smtp sample_secret)"
    by (simp add: ServerSettings_parse_def ServerSettings_def z_string_min1_def z_int_positive_def
        ConnType_def sample_secret_def)
  have c: "connection (smtp sample_secret) = ''STARTTLS''"
    by (simp add: sample_secret_def)
  show ?thesis
    using connection_mode [OF p] p c by auto
qed

subsection \<open>The sample store\<close>

lemma sample_record_decrypts:
  "decryptJSON ideal_lib sample_env (Some (enc sample_record)) (aad_of sample_id ''u1'') = Inr sample_secret"
  by (simp add: sample_record_def decryptJSON_def encryptJSON_def hkdfSubkey_def getMasterKey_def
      ideal_lib_def sample_env_def reference_parse_stringify Let_def)

lemma sample_record_ids: "acc_id sample_record = sample_id" "integrationId sample_record = ''u1''"
  by (simp_all add: sample_record_def)

lemma kAccount_neq_kUserIndex: "kAccount a \<noteq> kUserIndex t"
  by (simp add: kAccount_def kUserIndex_def)

lemma sample_store_account: "sample_store (kAccount sample_id) = Some (RObject sample_record)"
  by (simp add: sample_store_def kAccount_neq_kUserIndex)

lemma sample_state_fields:
  "store sample_state = sample_store"
  "watchers sample_state = Map.empty"
  "watcher_objs sample_state = Map.empty"
  "set_objs sample_state = Map.empty"
  "timeouts sample_state = Map.empty"
  "awaiting_logout sample_state = []"
  "next_ref sample_state = 0"
  "now_ms sample_state = 0"
  "written sample_state = []"
  by (simp_all add: sample_state_def initial_state_def)

lemma sample_load: "loadAccount sample_store sample_id m = Inr (Some sample_record)"
  by (simp add: loadAccount_def redis_get_def sample_store_account)

subsection \<open>Master key\<close>

lemma getMasterKey_bad:
  assumes "CONFIG_MASTER_KEY_BASE64 penv = None \<or> CONFIG_MASTER_KEY_BASE64 penv = Some []
           \<or> (\<exists>b. CONFIG_MASTER_KEY_BASE64 penv = Some b \<and> length (from_base64 L b) \<noteq> 32)"
  shows "getMasterKey L penv = Inl MasterKeyRequired \<or> getMasterKey L penv = Inl MasterKeyNot32Bytes"
proof (cases "CONFIG_MASTER_KEY_BASE64 penv")
  case None
  then show ?thesis by (simp add: getMasterKey_def)
next
  case (Some b)
  then have "b = [] \<or> length (from_base64 L b) \<noteq> 32"
    using assms by auto
  then show ?thesis
    using Some by (auto simp: getMasterKey_def Let_def)
qed

text \<open>
  Claim C7, as the specification states it, fails: with no master key configured the
  module loads and the process starts; the configuration error appears only when an
  envelope is sealed or opened.
\<close>

theorem master_key_counterexample:
  "load_module no_master_key sample_store = Inr sample_state
   \<and> encryptJSON ideal_lib no_master_key ''0123456789abcdef'' ''0123456789ab'' sample_secret
       (aad_of sample_id ''u1'') = Inl MasterKeyRequired
   \<and> decryptJSON ideal_lib no_master_key (Some (enc sample_record)) (aad_of sample_id ''u1'')
       = Inl MasterKeyRequired"
  by (simp add: load_module_def sample_state_def encryptJSON_def decryptJSON_def hkdfSubkey_def
      getMasterKey_def no_master_key_def sample_record_def ideal_lib_def sample_env_def)

text \<open>
  Claim C7, amended. If the configured master key is absent or empty, or its base64
  decoding is not exactly 32 bytes, loading the module still succeeds, and the
  configuration error is raised by \<open>getMasterKey\<close> on use: every \<open>encryptJSON\<close> and
  every \<open>decryptJSON\<close> of a supported envelope fails with it.
\<close>

theorem master_key_checked_on_use:
  assumes "CONFIG_MASTER_KEY_BASE64 penv = None \<or> CONFIG_MASTER_KEY_BASE64 penv = Some []
           \<or> (\<exists>b. CONFIG_MASTER_KEY_BASE64 penv = Some b \<and> length (from_base64 L b) \<noteq> 32)"
  shows "load_module penv r = Inr (initial_state r)
       \<and> (\<exists>e. (e = MasterKeyRequired \<or> e = MasterKeyNot32Bytes)
              \<and> getMasterKey L penv = Inl e
              \<and> (\<forall>salt iv sec aad. encryptJSON L penv salt iv sec aad = Inl e)
              \<and> (\<forall>env aad. env_v env = 1 \<and> env_alg env = ''AES-256-GCM''
                    \<longrightarrow> decryptJSON L penv (Some env) aad = Inl e))"
proof -
  obtain e where e: "e = MasterKeyRequired \<or> e = MasterKeyNot32Bytes" "getMasterKey L penv = Inl e"
    using getMasterKey_bad [OF assms] by blast
  have enc: "encryptJSON L penv salt iv sec aad = Inl e" for salt iv sec aad
    by (simp add: encryptJSON_def hkdfSubkey_def e(2))
  have dec: "decryptJSON L penv (Some env) aad = Inl e"
    if "env_v env = 1" "env_alg env = ''AES-256-GCM''" for env aad
    using that by (simp add: decryptJSON_def hkdfSubkey_def e(2))
  show ?thesis
    using e enc dec by (auto simp: load_module_def)
qed

theorem master_key_checked_on_use_witness:
  "load_module \<lparr> CONFIG_MASTER_KEY_BASE64 = Some ''c2hvcnQ='' \<rparr> sample_store = Inr sample_state
   \<and> getMasterKey ideal_lib \<lparr> CONFIG_MASTER_KEY_BASE64 = Some ''c2hvcnQ='' \<rparr> = Inl MasterKeyNot32Bytes
   \<and> encryptJSON ideal_lib \<lparr> CONFIG_MASTER_KEY_BASE64 = Some ''c2hvcnQ='' \<rparr>
       ''0123456789abcdef'' ''0123456789ab'' sample_secret (aad_of sample_id ''u1'')
       = Inl MasterKeyNot32Bytes"
proof -
  have bad: "CONFIG_MASTER_KEY_BASE64 \<lparr> CONFIG_MASTER_KEY_BASE64 = Some ''c2hvcnQ='' \<rparr> = None
           \<or> CONFIG_MASTER_KEY_BASE64 \<lparr> CONFIG_MASTER_KEY_BASE64 = Some ''c2hvcnQ='' \<rparr> = Some []
           \<or> (\<exists>b. CONFIG_MASTER_KEY_BASE64 \<lparr> CONFIG_MASTER_KEY_BASE64 = Some ''c2hvcnQ='' \<rparr> = Some b
                  \<and> length (from_base64 ideal_lib b) \<noteq> 32)"
    by (simp add: ideal_lib_def)
  have k: "getMasterKey ideal_lib \<lparr> CONFIG_MASTER_KEY_BASE64 = Some ''c2hvcnQ='' \<rparr> = Inl MasterKeyNot32Bytes"
    by (simp add: getMasterKey_def ideal_lib_def)
  show ?thesis
    using master_key_checked_on_use [OF bad, of sample_store] k
    by (auto simp: sample_state_def)
qed

subsection \<open>Sender address\<close>

text \<open>
  Claim C9. Whenever the send route succeeds, it made exactly one \<open>sendMail\<close> call, on
  the transport built from the decrypted secret of the account, and the \<open>from\<close> of the
  message is that secret's \<open>smtp.username\<close>, whatever \<open>primaryEmail\<close> and the request
  body are.
\<close>

theorem sender_address:
  assumes "post_send L penv net s a body = (Inr info, calls)"
  shows "\<exists>acc sec msg.
           loadAccount (store s) a True = Inr (Some acc)
         \<and> decryptJSON L penv (Some (enc acc)) (aad_of (acc_id acc) (integrationId acc)) = Inr sec
         \<and> SendSchema_parse L body = Inr msg
         \<and> calls = [(smtpTransportFromSecret sec, outbound_mail L sec msg)]
         \<and> smtp_sendMail net (smtpTransportFromSecret sec) (outbound_mail L sec msg) = Inr info
         \<and> mail_from (outbound_mail L sec msg) = username (smtp sec)"
  using assms
  by (auto simp: post_send_def outbound_mail_def Let_def split: sum.splits option.splits)

theorem sender_address_witness:
  "post_send ideal_lib sample_env obliging_network sample_state sample_id
     (JObj [(''to'', JArr [JStr ''x@y.z'']), (''subject'', JStr ''hi''), (''text'', JStr ''hello'')])
   = (Inr \<lparr> messageId = ''<1@smtp.x>'', accepted = [''x@y.z''], rejected = [] \<rparr>,
      [(smtpTransportFromSecret sample_secret,
        \<lparr> mail_from = ''sender@b.co'', mail_to = [''x@y.z''], mail_cc = None, mail_bcc = None,
          mail_subject = ''hi'', mail_text = Some ''hello'', mail_html = None,
          mail_attachments = [] \<rparr>)])
   \<and> primaryEmail sample_secret = ''a@b.co''"
proof -
  have parse: "SendSchema_parse ideal_lib
      (JObj [(''to'', JArr [JStr ''x@y.z'']), (''subject'', JStr ''hi''), (''text'', JStr ''hello'')])
      = Inr \<lparr> sr_to = [''x@y.z''], sr_cc = None, sr_bcc = None, sr_subject = ''hi'',
              sr_text = Some ''hello'', sr_html = None, sr_attachments = None \<rparr>"
    by (simp add: SendSchema_parse_def z_email_array_nonempty_def z_email_array_def z_email_def
        z_email_array_optional_def z_string_default_empty_def z_string_def z_string_optional_def
        z_attachments_optional_def ideal_lib_def)
  have run: "post_send ideal_lib sample_env obliging_network sample_state sample_id
     (JObj [(''to'', JArr [JStr ''x@y.z'']), (''subject'', JStr ''hi''), (''text'', JStr ''hello'')])
   = (Inr \<lparr> messageId = ''<1@smtp.x>'', accepted = [''x@y.z''], rejected = [] \<rparr>,
      [(smtpTransportFromSecret sample_secret,
        outbound_mail ideal_lib sample_secret
          \<lparr> sr_to = [''x@y.z''], sr_cc = None, sr_bcc = None, sr_subject = ''hi'',
              sr_text = Some ''hello'', sr_html = None, sr_attachments = None \<rparr>)])"
    by (simp add: post_send_def parse sample_state_fields sample_load sample_record_ids
        sample_record_decrypts obliging_network_def outbound_mail_def Let_def)
  show ?thesis
    using sender_address [OF run] run
    by (simp add: outbound_mail_def sample_secret_def)
qed

subsection \<open>Listing a tenant's accounts\<close>

lemma loadAccount_absent: "r (kAccount i) = None \<Longrightarrow> loadAccount r i False = Inr None"
  by (simp add: loadAccount_def redis_get_def)

lemma list_loop_skips_absent:
  "list_loop L penv r ids out =
     list_loop L penv r (filter (\<lambda>i. r (kAccount i) \<noteq> None) ids) out"
proof (induction ids arbitrary: out)
  case Nil
  show ?case by simp
next
  case (Cons i ids)
  show ?case
  proof (cases "r (kAccount i)")
    case None
    then show ?thesis
      using Cons.IH [of out] by (simp add: loadAccount_absent)
  next
    case (Some v)
    then show ?thesis
      using Cons.IH by (simp split: sum.splits option.splits)
  qed
qed

lemma list_loop_result:
  "list_loop L penv r ids out = Inr res \<Longrightarrow>
     \<exists>new. res = out @ new \<and>
       list_all2
         (\<lambda>i sm. \<exists>rec sec. r (kAccount i) = Some (RObject rec)
                   \<and> decryptJSON L penv (Some (enc rec)) (aad_of (acc_id rec) (integrationId rec)) = Inr sec
                   \<and> sm = summary_of rec sec)
         (filter (\<lambda>i. r (kAccount i) \<noteq> None) ids) new"
proof (induction ids arbitrary: out)
  case Nil
  then show ?case by simp
next
  case (Cons i ids)
  show ?case
  proof (cases "r (kAccount i)")
    case None
    then have "list_loop L penv r ids out = Inr res"
      using Cons.prems by (simp add: loadAccount_absent)
    then show ?thesis
      using Cons.IH [of out] None by simp
  next
    case (Some v)
    then obtain rec sec where
      v: "v = RObject rec"
      and d: "decryptJSON L penv (Some (enc rec)) (aad_of (acc_id rec) (integrationId rec)) = Inr sec"
      and rest: "list_loop L penv r ids (out @ [summary_of rec sec]) = Inr res"
      using Cons.prems
      by (auto simp: loadAccount_def redis_get_def split: redis_value.splits sum.splits)
    obtain new where new: "res = (out @ [summary_of rec sec]) @ new"
      "list_all2
         (\<lambda>i sm. \<exists>rec sec. r (kAccount i) = Some (RObject rec)
                   \<and> decryptJSON L penv (Some (enc rec)) (aad_of (acc_id rec) (integrationId rec)) = Inr sec
                   \<and> sm = summary_of rec sec)
         (filter (\<lambda>i. r (kAccount i) \<noteq> None) ids) new"
      using Cons.IH [OF rest] by blast
    show ?thesis
      using new Some v d by (intro exI [of _ "summary_of rec sec # new"]) auto
  qed
qed

text \<open>
  Claim C10. For every tenant with index members \<open>ids\<close>: the listing is the result of
  the loop run on the members whose record key is present, so a member without a record
  changes nothing and cannot make the listing fail; when the listing succeeds it holds,
  in order, exactly one summary for each member whose record exists, built from that
  record and its decrypted secret; and when no member has a record the listing is empty.
\<close>

theorem list_skips_dangling:
  assumes "t \<noteq> []" and "redis_smembers (store s) (kUserIndex t) = Inr ids"
  shows "get_accounts L penv s (Some t) =
           list_loop L penv (store s) (filter (\<lambda>i. store s (kAccount i) \<noteq> None) ids) []
       \<and> (\<forall>res. get_accounts L penv s (Some t) = Inr res \<longrightarrow>
             list_all2
               (\<lambda>i sm. \<exists>rec sec. store s (kAccount i) = Some (RObject rec)
                   \<and> decryptJSON L penv (Some (enc rec)) (aad_of (acc_id rec) (integrationId rec)) = Inr sec
                   \<and> sm = summary_of rec sec)
               (filter (\<lambda>i. store s (kAccount i) \<noteq> None) ids) res)
       \<and> ((\<forall>i \<in> set ids. store s (kAccount i) = None) \<longrightarrow> get_accounts L penv s (Some t) = Inr [])"
proof -
  have run: "get_accounts L penv s (Some t) = list_loop L penv (store s) ids []"
    using assms by (simp add: get_accounts_def)
  have skip: "list_loop L penv (store s) ids [] =
      list_loop L penv (store s) (filter (\<lambda>i. store s (kAccount i) \<noteq> None) ids) []"
    by (rule list_loop_skips_absent)
  have none: "filter (\<lambda>i. store s (kAccount i) \<noteq> None) ids = []"
    if "\<forall>i \<in> set ids. store s (kAccount i) = None"
    using that by (simp add: filter_empty_conv)
  show ?thesis
  proof (intro conjI allI impI)
    show "get_accounts L penv s (Some t) =
           list_loop L penv (store s) (filter (\<lambda>i. store s (kAccount i) \<noteq> None) ids) []"
      using run skip by simp
  next
    fix res
    assume "get_accounts L penv s (Some t) = Inr res"
    then have "list_loop L penv (store s) ids [] = Inr res"
      using run by simp
    from list_loop_result [OF this]
    show "list_all2
               (\<lambda>i sm. \<exists>rec sec. store s (kAccount i) = Some (RObject rec)
                   \<and> decryptJSON L penv (Some (enc rec)) (aad_of (acc_id rec) (integrationId rec)) = Inr sec
                   \<and> sm = summary_of rec sec)
               (filter (\<lambda>i. store s (kAccount i) \<noteq> None) ids) res"
      by simp
  next
    assume "\<forall>i \<in> set ids. store s (kAccount i) = None"
    then show "get_accounts L penv s (Some t) = Inr []"
      using run skip none by simp
  qed
qed

lemma kAccount_inject: "kAccount a = kAccount b \<longleftrightarrow> a = b"
  by (simp add: kAccount_def)

lemma kUserIndex_inject: "kUserIndex a = kUserIndex b \<longleftrightarrow> a = b"
  by (simp add: kUserIndex_def)

lemma sample_store_index:
  "redis_smembers (store sample_state) (kUserIndex ''u1'') = Inr [''01BX5ZZKBKACTAV9WEVGEMMVRZ'', sample_id]"
  by (simp add: redis_smembers_def sample_state_fields sample_store_def)

lemma sample_store_dangling: "store sample_state (kAccount ''01BX5ZZKBKACTAV9WEVGEMMVRZ'') = None"
  by (simp add: sample_state_def initial_state_def sample_store_def kAccount_inject
      kAccount_neq_kUserIndex sample_id_def)

theorem list_skips_dangling_witness:
  "get_accounts ideal_lib sample_env sample_state (Some ''u1'')
     = Inr [\<lparr> sum_id = sample_id, sum_integrationId = ''u1'', sum_label = None,
              primaryEmailMasked = ''a*@b.co'',
              sum_createdAt = ''2024-01-01T12:00:00.000Z'',
              sum_updatedAt = ''2024-01-01T12:00:00.000Z'' \<rparr>]
   \<and> store sample_state (kAccount ''01BX5ZZKBKACTAV9WEVGEMMVRZ'') = None"
proof -
  have ne: "''u1'' \<noteq> []" by simp
  have present: "filter (\<lambda>i. store sample_state (kAccount i) \<noteq> None)
                   [''01BX5ZZKBKACTAV9WEVGEMMVRZ'', sample_id] = [sample_id]"
    using sample_store_dangling
    by (simp add: sample_state_def initial_state_def sample_store_account)
  have mask: "maskEmail ''a@b.co'' = ''a*@b.co''"
    by (simp add: maskEmail_def js_char_at_def)
  have step1: "get_accounts ideal_lib sample_env sample_state (Some ''u1'')
                 = list_loop ideal_lib sample_env (store sample_state) [sample_id] []"
    using list_skips_dangling [OF ne sample_store_index, of ideal_lib sample_env, THEN conjunct1]
    by (simp only: present)
  have times: "createdAt sample_record = ''2024-01-01T12:00:00.000Z''"
    "updatedAt sample_record = ''2024-01-01T12:00:00.000Z''"
    by (simp_all add: sample_record_def)
  have step2: "list_loop ideal_lib sample_env (store sample_state) [sample_id] []
     = Inr [\<lparr> sum_id = sample_id, sum_integrationId = ''u1'', sum_label = None,
              primaryEmailMasked = ''a*@b.co'',
              sum_createdAt = ''2024-01-01T12:00:00.000Z'',
              sum_updatedAt = ''2024-01-01T12:00:00.000Z'' \<rparr>]"
    by (simp add: sample_state_fields sample_load sample_record_ids sample_record_decrypts
          summary_of_def times)
       (simp add: sample_secret_def mask)
  show ?thesis
    using step1 step2 sample_store_dangling by simp
qed

subsection \<open>Records sit under the key of their id\<close>

lemma redis_sadd_object:
  "redis_sadd r k m = Inr r' \<Longrightarrow> r' k' = Some (RObject v) \<Longrightarrow> r k' = Some (RObject v)"
  by (auto simp: redis_sadd_def split: option.splits redis_value.splits if_splits)

lemma redis_srem_object:
  "redis_srem r k m = Inr r' \<Longrightarrow> r' k' = Some (RObject v) \<Longrightarrow> r k' = Some (RObject v)"
  by (auto simp: redis_srem_def split: option.splits redis_value.splits if_splits)

lemma own_key_empty: "own_key Map.empty"
  by (simp add: own_key_def)

lemma own_key_redis_set:
  "own_key r \<Longrightarrow> acc_id v = a \<Longrightarrow> own_key (redis_set r (kAccount a) v)"
  by (auto simp: own_key_def redis_set_def kAccount_inject)

lemma own_key_redis_del: "own_key r \<Longrightarrow> own_key (redis_del r k)"
  by (auto simp: own_key_def redis_del_def)

lemma own_key_redis_sadd: "redis_sadd r k m = Inr r' \<Longrightarrow> own_key r \<Longrightarrow> own_key r'"
  by (auto simp: own_key_def dest: redis_sadd_object)

lemma own_key_redis_srem: "redis_srem r k m = Inr r' \<Longrightarrow> own_key r \<Longrightarrow> own_key r'"
  by (auto simp: own_key_def dest: redis_srem_object)

lemma own_key_post_accounts:
  assumes "own_key (store s)" and "post_accounts L penv net s body newId salt iv now = (s', res)"
  shows "own_key (store s')"
  using assms
  by (auto simp: post_accounts_def Let_def own_key_redis_set
      split: sum.splits option.splits if_splits
      dest!: own_key_redis_sadd)

lemma own_key_put_account:
  assumes "own_key (store s)" and "put_account L penv s a body salt iv now = (s', res)"
  shows "own_key (store s')"
  using assms
  by (auto simp: put_account_def own_key_def redis_set_def kAccount_inject loadAccount_def
      redis_get_def split: sum.splits option.splits redis_value.splits if_splits)

lemma own_key_delete_account:
  assumes "own_key (store s)" and "delete_account s a = (s', res)"
  shows "own_key (store s')"
  using assms
  by (auto simp: delete_account_def Let_def own_key_redis_del
      split: sum.splits option.splits
      dest!: own_key_redis_srem)

lemma redis_sadd_other:
  "redis_sadd r k m = Inr r' \<Longrightarrow> k' \<noteq> k \<Longrightarrow> r' k' = r k'"
  by (auto simp: redis_sadd_def split: option.splits redis_value.splits if_splits)

lemma redis_sadd_member:
  "redis_sadd r k m = Inr r' \<Longrightarrow> \<exists>ms. redis_smembers r' k = Inr ms \<and> m \<in> set ms"
  by (auto simp: redis_sadd_def redis_smembers_def split: option.splits redis_value.splits if_splits)

lemma post_accounts_created:
  assumes "post_accounts L penv net s body newId salt iv now = (s', Inr i)"
  shows "i = newId
       \<and> (\<exists>acc. store s' (kAccount newId) = Some (RObject acc) \<and> acc_id acc = newId
              \<and> (\<exists>ms. redis_smembers (store s') (kUserIndex (integrationId acc)) = Inr ms
                     \<and> newId \<in> set ms))"
proof -
  obtain b where b: "CreateAccountSchema_parse L body = Inr b"
    using assms by (auto simp: post_accounts_def split: sum.splits)
  obtain en where en:
    "encryptJSON L penv salt iv
       \<lparr> label = cr_label b, primaryEmail = cr_primaryEmail b, imap = cr_imap b, smtp = cr_smtp b \<rparr>
       (aad_of newId (cr_integrationId b)) = Inr en"
    using assms b by (auto simp: post_accounts_def Let_def split: sum.splits option.splits if_splits)
  obtain r2 where
    i: "i = newId"
    and sadd: "redis_sadd
                 (redis_set (store s) (kAccount newId)
                    \<lparr> acc_id = newId, integrationId = cr_integrationId b,
                      createdAt = now, updatedAt = now, enc = en \<rparr>)
                 (kUserIndex (cr_integrationId b)) newId = Inr r2"
    and s': "s' = s\<lparr> store := r2 \<rparr>"
    using assms b en
    by (auto simp: post_accounts_def Let_def split: sum.splits option.splits if_splits)
  let ?acc = "\<lparr> acc_id = newId, integrationId = cr_integrationId b,
                createdAt = now, updatedAt = now, enc = en \<rparr>"
  have rec: "r2 (kAccount newId) = Some (RObject ?acc)"
    using redis_sadd_other [OF sadd, of "kAccount newId"] kAccount_neq_kUserIndex
    by (simp add: redis_set_def)
  show ?thesis
    using i rec redis_sadd_member [OF sadd] by (auto simp: s')
qed

subsection \<open>Updating an account\<close>

lemma loadAccount_present:
  "r (kAccount a) = Some (RObject acc) \<Longrightarrow> loadAccount r a m = Inr (Some acc)"
  by (simp add: loadAccount_def redis_get_def)

lemma encryptJSON_salt_iv:
  "encryptJSON L penv salt iv sec aad = Inr en \<Longrightarrow>
     env_salt en = to_base64 L salt \<and> env_iv en = to_base64 L iv"
  by (auto simp: encryptJSON_def split: sum.splits prod.splits)






subsection \<open>Deleting an account\<close>

lemma redis_srem_other:
  "redis_srem r k m = Inr r' \<Longrightarrow> k' \<noteq> k \<Longrightarrow> r' k' = r k'"
  by (auto simp: redis_srem_def split: option.splits redis_value.splits if_splits)

lemma redis_srem_members:
  "redis_srem r k m = Inr r' \<Longrightarrow>
     \<exists>old. redis_smembers r k = Inr old \<and> redis_smembers r' k = Inr (removeAll m old)"
  by (auto simp: redis_srem_def redis_smembers_def split: option.splits redis_value.splits if_splits)

text \<open>
  What the delete route does for an account whose record is stored under its own key:
  the record key is removed, the index of the record's tenant loses exactly that member,
  and the route touches nothing else, in particular no watcher.
\<close>

lemma delete_cascade:
  assumes present: "store s (kAccount a) = Some (RObject acc)"
    and own: "acc_id acc = a"
    and ok: "delete_account s a = (s', Inr ())"
  shows "store s' (kAccount a) = None
       \<and> (\<exists>old. redis_smembers (store s) (kUserIndex (integrationId acc)) = Inr old
              \<and> redis_smembers (store s') (kUserIndex (integrationId acc)) = Inr (removeAll a old))
       \<and> (\<forall>ms. redis_smembers (store s') (kUserIndex (integrationId acc)) = Inr ms \<longrightarrow> a \<notin> set ms)
       \<and> watchers s' = watchers s \<and> watcher_objs s' = watcher_objs s
       \<and> set_objs s' = set_objs s \<and> timeouts s' = timeouts s
       \<and> s' = s\<lparr> store := store s' \<rparr>"
proof -
  let ?r1 = "redis_del (store s) (kAccount a)"
  let ?idx = "kUserIndex (integrationId acc)"
  have load: "loadAccount (store s) a False = Inr (Some acc)"
    using present by (rule loadAccount_present)
  obtain r2 where srem: "redis_srem ?r1 ?idx a = Inr r2" and s': "s' = s\<lparr> store := r2 \<rparr>"
    using ok load own by (auto simp: delete_account_def Let_def split: sum.splits)
  have gone: "r2 (kAccount a) = None"
    using redis_srem_other [OF srem, of "kAccount a"] kAccount_neq_kUserIndex [of a "integrationId acc"]
    by (simp add: redis_del_def)
  obtain old where old: "redis_smembers ?r1 ?idx = Inr old"
    "redis_smembers r2 ?idx = Inr (removeAll a old)"
    using redis_srem_members [OF srem] by blast
  have before: "redis_smembers (store s) ?idx = Inr old"
    using old(1) kAccount_neq_kUserIndex [of a "integrationId acc"]
    by (simp add: redis_smembers_def redis_del_def)
  show ?thesis
    using gone old(2) before by (auto simp: s')
qed

lemma delete_cascade_sample:
  "delete_account sample_state sample_id
     = (sample_state\<lparr> store := [kUserIndex ''u1'' \<mapsto> RSet [''01BX5ZZKBKACTAV9WEVGEMMVRZ'']] \<rparr>, Inr ())
   \<and> store sample_state (kAccount sample_id) = Some (RObject sample_record)"
proof -
  have present: "store sample_state (kAccount sample_id) = Some (RObject sample_record)"
    by (simp add: sample_state_fields sample_store_account)
  have run: "delete_account sample_state sample_id
     = (sample_state\<lparr> store := [kUserIndex ''u1'' \<mapsto> RSet [''01BX5ZZKBKACTAV9WEVGEMMVRZ'']] \<rparr>, Inr ())"
    by (simp add: delete_account_def sample_state_fields sample_load sample_record_ids redis_del_def
          redis_srem_def Let_def)
       (auto simp: sample_state_def initial_state_def sample_store_def kAccount_neq_kUserIndex
          kAccount_neq_kUserIndex [symmetric] sample_id_def fun_eq_iff)
  show ?thesis
    using delete_cascade [OF present sample_record_ids(1) run] run present by simp
qed

lemma watched_state_eq:
  "watched_state =
     \<lparr> store = sample_store, watchers = [sample_id \<mapsto> 1],
       watcher_objs = [1 \<mapsto> sample_watcher],
       set_objs = [0 \<mapsto> []], timeouts = Map.empty, awaiting_logout = [],
       next_ref = 2, now_ms = 0, written = [] \<rparr>"
  by (simp add: watched_state_def post_watch_start_def ensureWatcher_def lookup_watcher_def
      sample_state_fields sample_load sample_record_ids sample_record_decrypts Let_def
      sample_watcher_def)

lemma deleted_state_eq:
  "delete_account watched_state sample_id =
     (\<lparr> store = [kUserIndex ''u1'' \<mapsto> RSet [''01BX5ZZKBKACTAV9WEVGEMMVRZ'']],
        watchers = [sample_id \<mapsto> 1],
        watcher_objs = [1 \<mapsto> sample_watcher],
        set_objs = [0 \<mapsto> []], timeouts = Map.empty, awaiting_logout = [],
        next_ref = 2, now_ms = 0, written = [] \<rparr>, Inr ())"
  by (simp add: watched_state_eq delete_account_def sample_load sample_record_ids redis_del_def
        redis_srem_def Let_def)
     (auto simp: sample_store_def kAccount_neq_kUserIndex kAccount_neq_kUserIndex [symmetric]
        sample_id_def fun_eq_iff)

text \<open>
  Claim C2 asks that after a successful \<open>DELETE\<close> no watcher for the account exist in
  the registry. The route removes the record and the index membership and never calls
  \<open>stopWatcher\<close>. Start a watcher for the sample account, then delete the account:
  the route answers success, the record key is absent and the index has lost the id,
  and the registry still holds the watcher with its IMAP client; a stream opened for the
  deleted account afterwards is attached to that watcher without an error event.
\<close>

theorem delete_leaves_watcher_running:
  "lookup_watcher watched_state sample_id = Some (1, sample_watcher)
   \<and> snd (delete_account watched_state sample_id) = Inr ()
   \<and> store deleted_state (kAccount sample_id) = None
   \<and> redis_smembers (store deleted_state) (kUserIndex ''u1'') = Inr [''01BX5ZZKBKACTAV9WEVGEMMVRZ'']
   \<and> lookup_watcher deleted_state sample_id = Some (1, sample_watcher)
   \<and> client sample_watcher = Some (imapConfigFromSecret sample_secret)
   \<and> snd (get_stream ideal_lib sample_env deleted_state sample_id 9) = Some 1
   \<and> written (fst (get_stream ideal_lib sample_env deleted_state sample_id 9))
        = [(9, SSEReady sample_id)]
   \<and> set_objs (fst (get_stream ideal_lib sample_env deleted_state sample_id 9)) 0 = Some [9]"
  by (simp add: deleted_state_def deleted_state_eq)
     (simp add: watched_state_eq lookup_watcher_def redis_smembers_def get_stream_def
        ensureWatcher_def set_add_def write_event_def sample_watcher_def kAccount_neq_kUserIndex
        kAccount_neq_kUserIndex [symmetric] Let_def)

subsection \<open>A watcher at work\<close>

lemma attach_first:
  "get_stream ideal_lib sample_env sample_state sample_id 7
     = (\<lparr> store = sample_store, watchers = [sample_id \<mapsto> 1],
          watcher_objs = [1 \<mapsto> sample_watcher],
          set_objs = [0 \<mapsto> [7]], timeouts = Map.empty, awaiting_logout = [],
          next_ref = 2, now_ms = 0, written = [(7, SSEReady sample_id)] \<rparr>, Some 1)"
  by (simp add: get_stream_def ensureWatcher_def lookup_watcher_def sample_state_fields
      sample_load sample_record_ids sample_record_decrypts Let_def set_add_def write_event_def
      sample_watcher_def)

lemma watching_state_eq:
  "watching_state =
     \<lparr> store = sample_store, watchers = [sample_id \<mapsto> 1],
       watcher_objs = [1 \<mapsto> sample_watcher\<lparr> lastUid := 1000, idleTimer := Some 2 \<rparr>],
       set_objs = [0 \<mapsto> [7]], timeouts = [2 \<mapsto> (300000, KeepAliveCb 1)], awaiting_logout = [],
       next_ref = 3, now_ms = 0,
       written = [(7, SSEReady sample_id), (7, WatcherReady sample_id)] \<rparr>"
  by (simp add: watching_state_def attach_first watcher_ready_def keepAliveWatcher_def
      clearTimeout_def setTimeout_def subscribers_def broadcast_def sample_watcher_def Let_def)

subsection \<open>UID ordering\<close>

lemma two_requests: "exists_request watching_state 1 = Some 1001"
  by (simp add: watching_state_eq exists_request_def sample_watcher_def)

lemma fetch_new: "uid_fetch [999, 1000, 1001, 1002] 1001 = [1001, 1002]"
  by (simp add: uid_fetch_def)

lemma first_pass:
  "exists_results watching_state 1 sample_id [1001, 1002] =
     \<lparr> store = sample_store, watchers = [sample_id \<mapsto> 1],
       watcher_objs = [1 \<mapsto> sample_watcher\<lparr> lastUid := 1002, idleTimer := Some 2 \<rparr>],
       set_objs = [0 \<mapsto> [7]], timeouts = [2 \<mapsto> (300000, KeepAliveCb 1)], awaiting_logout = [],
       next_ref = 3, now_ms = 0,
       written = [(7, SSEReady sample_id), (7, WatcherReady sample_id),
                  (7, EmailReceived sample_id 1001), (7, EmailReceived sample_id 1002)] \<rparr>"
  by (simp add: watching_state_eq broadcast_def subscribers_def sample_watcher_def Let_def)

text \<open>
  Claim C4 asks that the UIDs of the \<open>EmailReceived\<close> events of one watcher be strictly
  increasing, none published twice. The handler does not serialise its passes. Two
  messages (UIDs 1001 and 1002) arrive above the baseline 1000, and the second
  \<open>exists\<close> notification is handled before the fetch of the first has yielded: both
  passes ask for \<open>1001:*\<close>, the server answers each with 1001 and 1002, and the
  subscriber is sent both UIDs twice.
\<close>

theorem overlapping_exists_passes_repeat_uids:
  "exists_request watching_state 1 = Some 1001
   \<and> uid_fetch [999, 1000, 1001, 1002] 1001 = [1001, 1002]
   \<and> written
        (exists_results
           (exists_results watching_state 1 sample_id (uid_fetch [999, 1000, 1001, 1002] 1001))
           1 sample_id (uid_fetch [999, 1000, 1001, 1002] 1001))
      = [(7, SSEReady sample_id), (7, WatcherReady sample_id),
         (7, EmailReceived sample_id 1001), (7, EmailReceived sample_id 1002),
         (7, EmailReceived sample_id 1001), (7, EmailReceived sample_id 1002)]"
  unfolding two_requests fetch_new first_pass
  by (simp add: broadcast_def subscribers_def sample_watcher_def Let_def)

subsection \<open>Idle grace\<close>

lemma detached_state_eq:
  "detached_state =
     \<lparr> store = sample_store, watchers = [sample_id \<mapsto> 1],
       watcher_objs = [1 \<mapsto> sample_watcher\<lparr> lastUid := 1000, idleTimer := Some 3 \<rparr>],
       set_objs = [0 \<mapsto> []], timeouts = [3 \<mapsto> (65000, StopWatcherCb sample_id)],
       awaiting_logout = [], next_ref = 4, now_ms = 5000,
       written = [(7, SSEReady sample_id), (7, WatcherReady sample_id)] \<rparr>"
  by (simp add: detached_state_def watching_state_eq advance_clock_def stream_closed_def
      set_delete_def keepAliveWatcher_def clearTimeout_def setTimeout_def subscribers_def
      sample_watcher_def Let_def)

lemma reattached_state_eq:
  "reattached_state =
     \<lparr> store = sample_store, watchers = [sample_id \<mapsto> 1],
       watcher_objs = [1 \<mapsto> sample_watcher\<lparr> lastUid := 1000, idleTimer := Some 3 \<rparr>],
       set_objs = [0 \<mapsto> [8]], timeouts = [3 \<mapsto> (65000, StopWatcherCb sample_id)],
       awaiting_logout = [], next_ref = 4, now_ms = 15000,
       written = [(7, SSEReady sample_id), (7, WatcherReady sample_id), (8, SSEReady sample_id)] \<rparr>"
  by (simp add: reattached_state_def detached_state_eq advance_clock_def get_stream_def
      ensureWatcher_def lookup_watcher_def set_add_def write_event_def sample_watcher_def Let_def)

lemma torn_down_state_eq:
  "torn_down_state =
     \<lparr> store = sample_store, watchers = Map.empty,
       watcher_objs = [1 \<mapsto> sample_watcher\<lparr> lastUid := 1000, idleTimer := Some 3,
                                               stopping := True, client := None \<rparr>],
       set_objs = [0 \<mapsto> [8]], timeouts = Map.empty,
       awaiting_logout = [], next_ref = 4, now_ms = 65000,
       written = [(7, SSEReady sample_id), (7, WatcherReady sample_id), (8, SSEReady sample_id)] \<rparr>"
  by (simp add: torn_down_state_def reattached_state_eq advance_clock_def fire_timeout_def
      stopWatcher_def logout_settled_def stopWatcher_finally_def clearTimeout_def
      sample_watcher_def imapConfigFromSecret_def Let_def)

lemma idle_tear_down:
  "watchers (logout_settled (fire_timeout (advance_clock detached_state 60000) 3) 1 sample_id)
     sample_id = None"
  by (simp add: detached_state_eq advance_clock_def fire_timeout_def stopWatcher_def
      logout_settled_def stopWatcher_finally_def clearTimeout_def sample_watcher_def
      imapConfigFromSecret_def Let_def)

text \<open>
  Claim C3 asks that a watcher whose subscriber set stays empty for 60 seconds be torn
  down, and that a subscriber attaching within the 60 seconds cancel the pending
  tear-down. The first holds in the run below: left alone, the watcher is removed when
  timeout 3 runs. The stream route adds the subscriber and never touches the timer. After
  the first client's disconnection the subscriber set is empty and timeout 3 is due at
  65000 ms; the second client attaches at 15000 ms and the timeout is still pending;
  at 65000 ms it runs \<open>stopWatcher\<close>, and the watcher is removed from the registry
  although the second client is in its subscriber set.
\<close>

theorem reattach_does_not_cancel_teardown:
  "set_objs detached_state 0 = Some []
   \<and> timeouts detached_state 3 = Some (65000, StopWatcherCb sample_id)
   \<and> watchers (logout_settled (fire_timeout (advance_clock detached_state 60000) 3) 1 sample_id)
         sample_id = None
   \<and> now_ms reattached_state = 15000
   \<and> set_objs reattached_state 0 = Some [8]
   \<and> timeouts reattached_state 3 = Some (65000, StopWatcherCb sample_id)
   \<and> now_ms torn_down_state = 65000
   \<and> set_objs torn_down_state 0 = Some [8]
   \<and> watchers torn_down_state sample_id = None"
  using idle_tear_down
  by (simp add: detached_state_eq reattached_state_eq torn_down_state_eq)

end
